theory Spec2Isabelle
  imports Main "HOL-Library.Sublist"
begin

section \<open>Values of the exported records\<close>

text \<open>
  The exporters take \<^verbatim>\<open>data: any[]\<close>. A value is undefined, null, a boolean, a number, a
  string, an array or an object. \<open>JNum i\<close> is the number \<open>i\<close>, an integer (fractions, NaN
  and the infinities are not represented). \<open>JObj kvs\<close> is a plain object, as \<^verbatim>\<open>JSON.parse\<close>
  and an object literal make it: its prototype is \<^verbatim>\<open>Object.prototype\<close>, and \<open>kvs\<close> lists its
  own properties, all of them enumerable data properties, in the order in which the engine
  enumerates them: names that are array indices first, in ascending numeric order, then
  the other names in the order of their creation. A function is not a value of this type,
  nor is an object with another prototype (a class instance, a \<^verbatim>\<open>Date\<close>).
\<close>

datatype jsval =
    JUndefined
  | JNull
  | JBool bool
  | JNum int
  | JStr string
  | JArr "jsval list"
  | JObj "(string \<times> jsval) list"

datatype js_error = TypeError | IOError string

text \<open>
  Where the code meets something that these types do not represent (the text of a number
  beyond the safe integers, a member of \<^verbatim>\<open>Array.prototype\<close>, an object that holds a function),
  the outcome is left open: \<open>unrepresented x\<close> is a value about which nothing is known but
  its type. No example below evaluates it, and the theorems that depend on such an outcome
  exclude it by a hypothesis.
\<close>

definition unrepresented :: "'a \<Rightarrow> 'b" where
  "unrepresented x = undefined x"

subsection \<open>Decimal numerals and array-index names\<close>

definition digit_char :: "nat \<Rightarrow> char" where
  "digit_char d = ''0123456789'' ! d"

text \<open>The decimal numeral of an integer that is not negative.\<close>

function decimal :: "int \<Rightarrow> string" where
  "decimal i =
     (if i < 10 then [digit_char (nat i)] else decimal (i div 10) @ [digit_char (nat (i mod 10))])"
  by pat_completeness auto
termination
  by (relation "measure nat") auto

declare decimal.simps [simp del]

text \<open>
  \<^verbatim>\<open>Number.prototype.toString\<close>, as \<^verbatim>\<open>join\<close>, a template literal and \<^verbatim>\<open>JSON.stringify\<close> apply
  it. A safe integer (of magnitude at most \<open>2^53 - 1\<close>) is written as its plain decimal
  numeral. Beyond, JavaScript writes the shortest digits that read back as the same double,
  in exponent form from \<open>10^21\<close> on (\<^verbatim>\<open>1e+21\<close>): that text is not represented.
\<close>

definition Number_toString :: "int \<Rightarrow> string" where
  "Number_toString i =
     (if \<bar>i\<bar> \<le> 9007199254740991
      then (if i < 0 then CHR ''-'' # decimal (- i) else decimal i)
      else unrepresented i)"

text \<open>The text of a length or of an index, a number that is not negative.\<close>

definition string_of_nat :: "nat \<Rightarrow> string" where
  "string_of_nat n = Number_toString (int n)"

definition is_digit :: "char \<Rightarrow> bool" where
  "is_digit c = (c \<in> set ''0123456789'')"

definition digit_value :: "char \<Rightarrow> int" where
  "digit_value c = of_char c - 48"

definition decimal_value :: "string \<Rightarrow> int" where
  "decimal_value s = foldl (\<lambda>a c. 10 * a + digit_value c) 0 s"

text \<open>
  A property name is an array index when it is the canonical decimal numeral of an
  integer from 0 to \<open>2^32 - 2\<close>.
\<close>

definition array_index :: "string \<Rightarrow> int option" where
  "array_index s =
     (if s \<noteq> [] \<and> list_all is_digit s \<and> (hd s \<noteq> CHR ''0'' \<or> length s = 1)
         \<and> decimal_value s < 4294967295
      then Some (decimal_value s) else None)"

subsection \<open>Property access\<close>

definition Array_isArray :: "jsval \<Rightarrow> bool" where
  "Array_isArray v = (case v of JArr _ \<Rightarrow> True | _ \<Rightarrow> False)"

text \<open>Truthiness, as \<^verbatim>\<open>!data\<close> and \<^verbatim>\<open>if (x)\<close> read a value.\<close>

definition truthy :: "jsval \<Rightarrow> bool" where
  "truthy v =
     (case v of JUndefined \<Rightarrow> False | JNull \<Rightarrow> False | JBool b \<Rightarrow> b
      | JNum i \<Rightarrow> i \<noteq> 0 | JStr s \<Rightarrow> s \<noteq> [] | JArr _ \<Rightarrow> True | JObj _ \<Rightarrow> True)"

definition is_record :: "jsval \<Rightarrow> bool" where
  "is_record v = (case v of JObj _ \<Rightarrow> True | _ \<Rightarrow> False)"

text \<open>
  The own enumerable properties of a value, as \<^verbatim>\<open>Object.keys\<close>, \<^verbatim>\<open>Object.entries\<close> and the
  spread \<^verbatim>\<open>{...item}\<close> enumerate them: the elements of an array and the characters of a
  string under their indices, nothing for the other primitives.
\<close>

definition indexed :: "'a list \<Rightarrow> (string \<times> 'a) list" where
  "indexed xs = zip (map string_of_nat [0..<length xs]) xs"

definition own_properties :: "jsval \<Rightarrow> (string \<times> jsval) list" where
  "own_properties v =
     (case v of
        JObj kvs \<Rightarrow> kvs
      | JArr xs \<Rightarrow> indexed xs
      | JStr s \<Rightarrow> indexed (map (\<lambda>c. JStr [c]) s)
      | _ \<Rightarrow> [])"

text \<open>\<^verbatim>\<open>Object.keys(v)\<close>: a TypeError on null and undefined.\<close>

definition Object_keys :: "jsval \<Rightarrow> js_error + string list" where
  "Object_keys v =
     (if v = JNull \<or> v = JUndefined then Inl TypeError else Inr (map fst (own_properties v)))"

text \<open>
  What a property access can yield: a value, or a member that a plain object inherits
  from \<^verbatim>\<open>Object.prototype\<close>. The members of \<^verbatim>\<open>Object.prototype\<close> are built-in functions,
  \<open>Builtin_function f\<close> being the one whose name is \<open>f\<close>, and the accessor \<^verbatim>\<open>__proto__\<close>, which
  reads as the prototype of the object: for a plain object \<^verbatim>\<open>Object.prototype\<close> itself.
\<close>

datatype property =
    Data jsval
  | Builtin_function string
  | Object_prototype

text \<open>
  The member of \<^verbatim>\<open>Object.prototype\<close> under a name, if there is one: \<^verbatim>\<open>constructor\<close> is the
  function \<^verbatim>\<open>Object\<close>, the other methods are functions of their own name.
\<close>

definition Object_prototype_member :: "string \<Rightarrow> property option" where
  "Object_prototype_member key =
     (if key = ''constructor'' then Some (Builtin_function ''Object'')
      else if key \<in> set [''__defineGetter__'', ''__defineSetter__'', ''hasOwnProperty'',
                          ''__lookupGetter__'', ''__lookupSetter__'', ''isPrototypeOf'',
                          ''propertyIsEnumerable'', ''toString'', ''valueOf'', ''toLocaleString'']
        then Some (Builtin_function key)
      else if key = ''__proto__'' then Some Object_prototype
      else None)"

text \<open>
  \<^verbatim>\<open>item[key]\<close>: a TypeError on null and undefined. On an object, its own property of that
  name; failing that, the member of \<^verbatim>\<open>Object.prototype\<close> of that name; failing that,
  undefined. On an array or a string, its \<^verbatim>\<open>length\<close> and its elements under their indices;
  what it inherits under another name (from \<^verbatim>\<open>Array.prototype\<close>, \<^verbatim>\<open>String.prototype\<close>) is not
  represented, nor is any property of a number or a boolean.
\<close>

definition get_property :: "jsval \<Rightarrow> string \<Rightarrow> js_error + property" where
  "get_property item key =
     (case item of
        JNull \<Rightarrow> Inl TypeError
      | JUndefined \<Rightarrow> Inl TypeError
      | JObj kvs \<Rightarrow>
          Inr (case map_of kvs key of
                 Some v \<Rightarrow> Data v
               | None \<Rightarrow>
                   (case Object_prototype_member key of
                      Some member \<Rightarrow> member
                    | None \<Rightarrow> Data JUndefined))
      | JArr xs \<Rightarrow>
          Inr (if key = ''length'' then Data (JNum (int (length xs)))
               else case map_of (indexed xs) key of
                      Some v \<Rightarrow> Data v
                    | None \<Rightarrow> unrepresented (item, key))
      | JStr s \<Rightarrow>
          Inr (if key = ''length'' then Data (JNum (int (length s)))
               else case map_of (indexed (map (\<lambda>c. JStr [c]) s)) key of
                      Some v \<Rightarrow> Data v
                    | None \<Rightarrow> unrepresented (item, key))
      | _ \<Rightarrow> Inr (unrepresented (item, key)))"

text \<open>
  \<^verbatim>\<open>key in item\<close>: a TypeError unless \<open>item\<close> is an object or an array. An object has the
  names of its own properties and the names of the members of \<^verbatim>\<open>Object.prototype\<close>; for an
  array, the names it inherits are not represented.
\<close>

definition has_property :: "string \<Rightarrow> jsval \<Rightarrow> js_error + bool" where
  "has_property key item =
     (case item of
        JObj kvs \<Rightarrow> Inr (key \<in> fst ` set kvs \<or> Object_prototype_member key \<noteq> None)
      | JArr xs \<Rightarrow>
          Inr (if key = ''length'' \<or> key \<in> fst ` set (indexed xs) then True
               else unrepresented (key, item))
      | _ \<Rightarrow> Inl TypeError)"

text \<open>
  \<^verbatim>\<open>a === b\<close> (and \<^verbatim>\<open>!==\<close>, its negation): no coercion between types. Two objects or arrays
  are strictly equal only when they are one and the same object; the values met at a
  comparison here belong to different objects (the caller's filter and the records), so
  the comparison of two of them is false.
\<close>

fun strict_equal :: "jsval \<Rightarrow> jsval \<Rightarrow> bool" where
  "strict_equal JUndefined JUndefined = True"
| "strict_equal JNull JNull = True"
| "strict_equal (JBool a) (JBool b) = (a = b)"
| "strict_equal (JNum a) (JNum b) = (a = b)"
| "strict_equal (JStr a) (JStr b) = (a = b)"
| "strict_equal _ _ = False"

text \<open>
  \<^verbatim>\<open>item[key] === value\<close>, \<open>value\<close> being a value of the caller's filter: an inherited member
  is a function or \<^verbatim>\<open>Object.prototype\<close>, which no such value is.
\<close>

fun property_equals :: "property \<Rightarrow> jsval \<Rightarrow> bool" where
  "property_equals (Data x) v = strict_equal x v"
| "property_equals (Builtin_function f) v = False"
| "property_equals Object_prototype v = False"

text \<open>
  The places of the own properties of an object when the property \<open>k\<close> is given the value
  \<open>v\<close>: an existing property keeps its place; a new array-index name goes among the index
  names, in ascending order; any other new name goes last. This is what an object literal
  does for every name (\<^verbatim>\<open>{...item, _exportedAt: timestamp}\<close>), and what the assignment
  \<^verbatim>\<open>obj[k] = v\<close> does for every name but \<^verbatim>\<open>__proto__\<close>, which \<open>assign_property\<close> below sets
  apart.
\<close>

fun insert_index :: "int \<Rightarrow> string \<Rightarrow> 'v \<Rightarrow> (string \<times> 'v) list \<Rightarrow> (string \<times> 'v) list" where
  "insert_index n k v [] = [(k, v)]"
| "insert_index n k v ((k', v') # kvs) =
     (case array_index k' of
        Some n' \<Rightarrow> if n' < n then (k', v') # insert_index n k v kvs else (k, v) # (k', v') # kvs
      | None \<Rightarrow> (k, v) # (k', v') # kvs)"

fun replace_value :: "string \<Rightarrow> 'v \<Rightarrow> (string \<times> 'v) list \<Rightarrow> (string \<times> 'v) list" where
  "replace_value k v [] = []"
| "replace_value k v ((k', v') # kvs) =
     (if k' = k then (k', v) else (k', v')) # replace_value k v kvs"

definition set_property :: "string \<Rightarrow> 'v \<Rightarrow> (string \<times> 'v) list \<Rightarrow> (string \<times> 'v) list" where
  "set_property k v kvs =
     (if k \<in> fst ` set kvs then replace_value k v kvs
      else case array_index k of
             Some n \<Rightarrow> insert_index n k v kvs
           | None \<Rightarrow> kvs @ [(k, v)])"

section \<open>The platform: clock, file system, logger\<close>

text \<open>
  What the exporters do to their surroundings is kept in a \<open>world\<close>: the number of clock
  readings so far, the directories and files that exist, and the lines handed to the
  logger. What the surroundings decide is a \<open>platform\<close>: the text of the n-th clock
  reading (\<^verbatim>\<open>new Date().toISOString()\<close>), \<^verbatim>\<open>path.dirname\<close>, and for which paths
  \<^verbatim>\<open>fs.mkdirSync\<close> and \<^verbatim>\<open>fs.writeFileSync\<close> throw (with which message).
\<close>

datatype log_entry =
    LogWarn string
  | LogInfo string
  | LogError string
  | LogErrorOf string js_error

record world =
  ticks :: nat
  fs_dirs :: "string set"
  fs_files :: "string \<rightharpoonup> string"
  logged :: "log_entry list"

record platform =
  clock :: "nat \<Rightarrow> string"
  path_dirname :: "string \<Rightarrow> string"
  mkdir_fault :: "string \<Rightarrow> string option"
  write_fault :: "string \<Rightarrow> string option"

definition Date_now_toISOString :: "platform \<Rightarrow> world \<Rightarrow> string \<times> world" where
  "Date_now_toISOString p w = (clock p (ticks w), w\<lparr>ticks := Suc (ticks w)\<rparr>)"

definition logger :: "log_entry \<Rightarrow> world \<Rightarrow> world" where
  "logger e w = w\<lparr>logged := logged w @ [e]\<rparr>"

definition fs_existsSync :: "world \<Rightarrow> string \<Rightarrow> bool" where
  "fs_existsSync w d = (d \<in> fs_dirs w)"

definition fs_mkdirSync :: "platform \<Rightarrow> world \<Rightarrow> string \<Rightarrow> (js_error + unit) \<times> world" where
  "fs_mkdirSync p w d =
     (case mkdir_fault p d of
        Some m \<Rightarrow> (Inl (IOError m), w)
      | None \<Rightarrow> (Inr (), w\<lparr>fs_dirs := insert d (fs_dirs w)\<rparr>))"

definition fs_writeFileSync ::
  "platform \<Rightarrow> world \<Rightarrow> string \<Rightarrow> string \<Rightarrow> (js_error + unit) \<times> world" where
  "fs_writeFileSync p w path content =
     (case write_fault p path of
        Some m \<Rightarrow> (Inl (IOError m), w)
      | None \<Rightarrow> (Inr (), w\<lparr>fs_files := (fs_files w)(path \<mapsto> content)\<rparr>))"

section \<open>BaseExporter: the transform pipeline\<close>

record ExportOptions =
  includeMetadata :: "bool option"
  customFields :: "string list option"
  filterOptions :: "(string \<times> jsval) list option"

text \<open>\<^verbatim>\<open>Array.prototype.map\<close> and \<^verbatim>\<open>filter\<close> with a callback that may throw.\<close>

fun map_throwing :: "('a \<Rightarrow> js_error + 'b) \<Rightarrow> 'a list \<Rightarrow> js_error + 'b list" where
  "map_throwing f [] = Inr []"
| "map_throwing f (x # xs) =
     (case f x of
        Inl e \<Rightarrow> Inl e
      | Inr y \<Rightarrow> (case map_throwing f xs of Inl e \<Rightarrow> Inl e | Inr ys \<Rightarrow> Inr (y # ys)))"

fun filter_throwing :: "('a \<Rightarrow> js_error + bool) \<Rightarrow> 'a list \<Rightarrow> js_error + 'a list" where
  "filter_throwing f [] = Inr []"
| "filter_throwing f (x # xs) =
     (case f x of
        Inl e \<Rightarrow> Inl e
      | Inr keep \<Rightarrow>
          (case filter_throwing f xs of
             Inl e \<Rightarrow> Inl e
           | Inr ys \<Rightarrow> Inr (if keep then x # ys else ys)))"

text \<open>
  The callback of \<open>filterData\<close>: the loop over \<^verbatim>\<open>Object.entries(filterOptions)\<close>, returning
  false at the first entry whose value the item does not have.
\<close>

fun filter_callback :: "(string \<times> jsval) list \<Rightarrow> jsval \<Rightarrow> js_error + bool" where
  "filter_callback [] item = Inr True"
| "filter_callback ((key, v) # entries) item =
     (case get_property item key of
        Inl e \<Rightarrow> Inl e
      | Inr x \<Rightarrow> if \<not> property_equals x v then Inr False else filter_callback entries item)"

definition filterData :: "jsval list \<Rightarrow> (string \<times> jsval) list \<Rightarrow> js_error + jsval list" where
  "filterData data fo = filter_throwing (filter_callback fo) data"

text \<open>
  \<^verbatim>\<open>result[field] = value\<close>, \<open>result\<close> being a plain object. The name \<^verbatim>\<open>__proto__\<close>, unless it is an
  own property of \<open>result\<close>, reaches the setter of \<^verbatim>\<open>Object.prototype\<close>: no property is
  made; an object, an array or null becomes the prototype of \<open>result\<close>, any other value is
  ignored, and \<^verbatim>\<open>Object.prototype\<close> is the prototype already. Under every other name the
  value becomes an own property. The outcome is \<open>None\<close> when \<open>result\<close> is no longer a plain
  object of values: when it has got another prototype, or holds a function.
\<close>

definition assign_property ::
  "string \<Rightarrow> property \<Rightarrow> (string \<times> jsval) list \<Rightarrow> (string \<times> jsval) list option" where
  "assign_property field value result =
     (if field = ''__proto__'' \<and> field \<notin> fst ` set result then
        (case value of
           Data v \<Rightarrow> if v = JNull \<or> is_record v \<or> Array_isArray v then None else Some result
         | Builtin_function f \<Rightarrow> None
         | Object_prototype \<Rightarrow> Some result)
      else
        (case value of
           Data v \<Rightarrow> Some (set_property field v result)
         | Builtin_function f \<Rightarrow> None
         | Object_prototype \<Rightarrow> None))"

text \<open>
  The \<^verbatim>\<open>fields.forEach\<close> of \<open>selectFields\<close>, \<open>result\<close> being the object under construction
  (\<open>None\<close> once it is no longer a plain object of values; the loop goes on all the same).
\<close>

fun select_loop ::
  "jsval \<Rightarrow> string list \<Rightarrow> (string \<times> jsval) list option
     \<Rightarrow> js_error + (string \<times> jsval) list option" where
  "select_loop item [] result = Inr result"
| "select_loop item (field # flds) result =
     (case has_property field item of
        Inl e \<Rightarrow> Inl e
      | Inr False \<Rightarrow> select_loop item flds result
      | Inr True \<Rightarrow>
          (case get_property item field of
             Inl e \<Rightarrow> Inl e
           | Inr v \<Rightarrow> select_loop item flds (Option.bind result (assign_property field v))))"

definition select_callback :: "string list \<Rightarrow> jsval \<Rightarrow> js_error + jsval" where
  "select_callback flds item =
     (case select_loop item flds (Some []) of
        Inl e \<Rightarrow> Inl e
      | Inr (Some result) \<Rightarrow> Inr (JObj result)
      | Inr None \<Rightarrow> Inr (unrepresented (flds, item)))"

definition selectFields :: "jsval list \<Rightarrow> string list \<Rightarrow> js_error + jsval list" where
  "selectFields data flds = map_throwing (select_callback flds) data"

text \<open>
  \<open>addMetadata\<close> reads the clock once, then maps every item to
  \<^verbatim>\<open>{...item, _exportedAt: timestamp, _exportVersion: '1.0.0'}\<close>.
\<close>

definition stamp :: "string \<Rightarrow> jsval \<Rightarrow> jsval" where
  "stamp timestamp item =
     JObj (set_property ''_exportVersion'' (JStr ''1.0.0'')
            (set_property ''_exportedAt'' (JStr timestamp) (own_properties item)))"

definition addMetadata :: "platform \<Rightarrow> world \<Rightarrow> jsval list \<Rightarrow> jsval list \<times> world" where
  "addMetadata p w data =
     (case Date_now_toISOString p w of (timestamp, w') \<Rightarrow> (map (stamp timestamp) data, w'))"

definition processData ::
  "platform \<Rightarrow> world \<Rightarrow> jsval \<Rightarrow> ExportOptions option \<Rightarrow> (js_error + jsval list) \<times> world" where
  "processData p w data options =
     (if \<not> truthy data \<or> \<not> Array_isArray data then (Inr [], w)
      else
        let processedData = (case data of JArr xs \<Rightarrow> xs | _ \<Rightarrow> []);
            filtered =
              (case Option.bind options filterOptions of
                 Some fo \<Rightarrow> filterData processedData fo
               | None \<Rightarrow> Inr processedData)
        in case filtered of
             Inl e \<Rightarrow> (Inl e, w)
           | Inr processedData \<Rightarrow>
               let selected =
                     (case Option.bind options customFields of
                        Some flds \<Rightarrow>
                          if length flds > 0 then selectFields processedData flds
                          else Inr processedData
                      | None \<Rightarrow> Inr processedData)
               in case selected of
                    Inl e \<Rightarrow> (Inl e, w)
                  | Inr processedData \<Rightarrow>
                      if Option.bind options includeMetadata = Some True
                      then (case addMetadata p w processedData of (out, w') \<Rightarrow> (Inr out, w'))
                      else (Inr processedData, w))"

section \<open>Text of values\<close>

text \<open>
  A string is its sequence of characters; how \<^verbatim>\<open>writeFileSync\<close> encodes them as bytes is not
  represented. \<open>double_quote\<close> is the character \<^verbatim>\<open>"\<close>, \<open>backslash\<close> the character \<^verbatim>\<open>\\<close> and
  \<open>newline\<close> the line feed.
\<close>

definition double_quote :: char where
  "double_quote = CHR 0x22"

definition backslash :: char where
  "backslash = CHR 0x5C"

definition newline :: char where
  "newline = CHR 0x0A"

text \<open>\<^verbatim>\<open>strings.join(sep)\<close> on an array of strings.\<close>

fun js_join :: "string \<Rightarrow> string list \<Rightarrow> string" where
  "js_join sep [] = []"
| "js_join sep [x] = x"
| "js_join sep (x # y # ys) = x @ sep @ js_join sep (y # ys)"

text \<open>
  \<open>ToString\<close> of a value, as \<^verbatim>\<open>Array.prototype.join\<close> applies it to an element; \<open>join\<close> turns an
  element that is null or undefined into the empty string.
\<close>

fun ToString :: "jsval \<Rightarrow> string" where
  "ToString JUndefined = ''undefined''"
| "ToString JNull = ''null''"
| "ToString (JBool b) = (if b then ''true'' else ''false'')"
| "ToString (JNum i) = Number_toString i"
| "ToString (JStr s) = s"
| "ToString (JArr xs) =
     js_join '','' (map (\<lambda>x. if x = JNull \<or> x = JUndefined then [] else ToString x) xs)"
| "ToString (JObj kvs) = ''[object Object]''"

text \<open>
  \<open>ToString\<close> of what a property access yields: the text of a built-in function is
  \<^verbatim>\<open>function f() { [native code] }\<close> with its name for \<^verbatim>\<open>f\<close>.
\<close>

fun property_ToString :: "property \<Rightarrow> string" where
  "property_ToString (Data v) = ToString v"
| "property_ToString (Builtin_function f) = ''function '' @ f @ ''() { [native code] }''"
| "property_ToString Object_prototype = ''[object Object]''"

definition Array_join :: "string \<Rightarrow> property list \<Rightarrow> string" where
  "Array_join sep xs =
     js_join sep
       (map (\<lambda>x. if x = Data JNull \<or> x = Data JUndefined then [] else property_ToString x) xs)"

definition typeof :: "property \<Rightarrow> string" where
  "typeof value =
     (case value of
        Data v \<Rightarrow>
          (case v of
             JUndefined \<Rightarrow> ''undefined''
           | JNull \<Rightarrow> ''object''
           | JBool _ \<Rightarrow> ''boolean''
           | JNum _ \<Rightarrow> ''number''
           | JStr _ \<Rightarrow> ''string''
           | JArr _ \<Rightarrow> ''object''
           | JObj _ \<Rightarrow> ''object'')
      | Builtin_function f \<Rightarrow> ''function''
      | Object_prototype \<Rightarrow> ''object'')"

subsection \<open>JSON.stringify\<close>

definition hex_digit :: "nat \<Rightarrow> char" where
  "hex_digit n = ''0123456789abcdef'' ! n"

text \<open>
  The escapes of a JSON string: the quote, the backslash, and the control characters
  (below 0x20), by their short forms where JSON has one and as \<^verbatim>\<open>\u00XX\<close> otherwise.
\<close>

definition json_escape :: "char \<Rightarrow> string" where
  "json_escape c =
     (if c = double_quote then [backslash, double_quote]
      else if c = backslash then [backslash, backslash]
      else if c = CHR 0x08 then [backslash, CHR ''b'']
      else if c = CHR 0x09 then [backslash, CHR ''t'']
      else if c = CHR 0x0A then [backslash, CHR ''n'']
      else if c = CHR 0x0C then [backslash, CHR ''f'']
      else if c = CHR 0x0D then [backslash, CHR ''r'']
      else if (of_char c :: nat) < 32
        then [backslash, CHR ''u'', CHR ''0'', CHR ''0'',
              hex_digit ((of_char c :: nat) div 16), hex_digit ((of_char c :: nat) mod 16)]
      else [c])"

definition QuoteJSONString :: "string \<Rightarrow> string" where
  "QuoteJSONString s = double_quote # concat (map json_escape s) @ [double_quote]"

text \<open>
  The brackets around the serialized members of an object or an array: \<open>gap\<close> is the
  indentation unit (empty for the one-line form), \<open>ind\<close> the indentation of the line the
  value starts on.
\<close>

definition json_wrap :: "string \<Rightarrow> string \<Rightarrow> string \<Rightarrow> string \<Rightarrow> string list \<Rightarrow> string" where
  "json_wrap opening closing gap ind partial =
     (if partial = [] then opening @ closing
      else if gap = [] then opening @ js_join '','' partial @ closing
      else opening @ [newline] @ (ind @ gap)
           @ js_join ('','' @ [newline] @ (ind @ gap)) partial
           @ [newline] @ ind @ closing)"

text \<open>
  The serialization of a value that stands in an array or in an object: undefined in an
  array is written as null, a property whose value is undefined is left out.
\<close>

fun SerializeJSONProperty :: "string \<Rightarrow> string \<Rightarrow> jsval \<Rightarrow> string"
  and SerializeJSONArray :: "string \<Rightarrow> string \<Rightarrow> jsval list \<Rightarrow> string list"
  and SerializeJSONObject :: "string \<Rightarrow> string \<Rightarrow> (string \<times> jsval) list \<Rightarrow> string list"
where
  "SerializeJSONProperty gap ind JUndefined = ''null''"
| "SerializeJSONProperty gap ind JNull = ''null''"
| "SerializeJSONProperty gap ind (JBool b) = (if b then ''true'' else ''false'')"
| "SerializeJSONProperty gap ind (JNum i) = Number_toString i"
| "SerializeJSONProperty gap ind (JStr s) = QuoteJSONString s"
| "SerializeJSONProperty gap ind (JArr xs) =
     json_wrap ''['' '']'' gap ind (SerializeJSONArray gap (ind @ gap) xs)"
| "SerializeJSONProperty gap ind (JObj kvs) =
     json_wrap ''{'' ''}'' gap ind (SerializeJSONObject gap (ind @ gap) kvs)"
| "SerializeJSONArray gap ind [] = []"
| "SerializeJSONArray gap ind (x # xs) =
     SerializeJSONProperty gap ind x # SerializeJSONArray gap ind xs"
| "SerializeJSONObject gap ind [] = []"
| "SerializeJSONObject gap ind ((k, v) # kvs) =
     (if v = JUndefined then SerializeJSONObject gap ind kvs
      else (QuoteJSONString k @ '':'' @ (if gap = [] then [] else '' '')
            @ SerializeJSONProperty gap ind v)
           # SerializeJSONObject gap ind kvs)"

text \<open>\<^verbatim>\<open>JSON.stringify(value, null, gap)\<close>: undefined (here \<open>None\<close>) for the value undefined.\<close>

definition JSON_stringify :: "string \<Rightarrow> jsval \<Rightarrow> string option" where
  "JSON_stringify gap v = (if v = JUndefined then None else Some (SerializeJSONProperty gap [] v))"

text \<open>
  \<^verbatim>\<open>JSON.stringify(value)\<close> of what a property access yields: undefined for a function;
  \<^verbatim>\<open>Object.prototype\<close> has no enumerable property and is written \<^verbatim>\<open>{}\<close>.
\<close>

definition JSON_stringify_property :: "property \<Rightarrow> string option" where
  "JSON_stringify_property value =
     (case value of
        Data v \<Rightarrow> JSON_stringify [] v
      | Builtin_function f \<Rightarrow> None
      | Object_prototype \<Rightarrow> Some ''{}'')"

section \<open>CSVExporter\<close>

text \<open>\<^verbatim>\<open>s.replace(/"/g, '""')\<close>\<close>

definition double_the_quotes :: "string \<Rightarrow> string" where
  "double_the_quotes s =
     concat (map (\<lambda>c. if c = double_quote then [double_quote, double_quote] else [c]) s)"

text \<open>
  The inner callback of \<open>convertToCSV\<close>: the cell of an item under a header. The cell is a
  string, or the value itself when it is a number, a boolean or a function; the \<^verbatim>\<open>join\<close> of
  the row then writes its text.
\<close>

definition csv_cell :: "jsval \<Rightarrow> string \<Rightarrow> js_error + property" where
  "csv_cell item header =
     (case get_property item header of
        Inl e \<Rightarrow> Inl e
      | Inr v \<Rightarrow>
          if v = Data JNull \<or> v = Data JUndefined then Inr (Data (JStr []))
          else if typeof v = ''object'' then
            (case JSON_stringify_property v of
               None \<Rightarrow> Inl TypeError
             | Some s \<Rightarrow> Inr (Data (JStr ([double_quote] @ double_the_quotes s @ [double_quote]))))
          else if typeof v = ''string'' then
            Inr (Data (JStr ([double_quote] @ double_the_quotes (property_ToString v)
                             @ [double_quote])))
          else Inr v)"

definition csv_row :: "string list \<Rightarrow> jsval \<Rightarrow> js_error + string" where
  "csv_row headers item =
     (case map_throwing (csv_cell item) headers of
        Inl e \<Rightarrow> Inl e
      | Inr cells \<Rightarrow> Inr (Array_join '','' cells))"

definition convertToCSV :: "jsval list \<Rightarrow> string list \<Rightarrow> js_error + string" where
  "convertToCSV data headers =
     (let headerRow = js_join '','' headers
      in case map_throwing (csv_row headers) data of
           Inl e \<Rightarrow> Inl e
         | Inr rows \<Rightarrow> Inr (js_join [newline] (headerRow # rows)))"

text \<open>
  The exporters ensure the directory of the target: \<^verbatim>\<open>if (!fs.existsSync(dir))
  fs.mkdirSync(dir, { recursive: true })\<close>.
\<close>

definition ensure_directory :: "platform \<Rightarrow> world \<Rightarrow> string \<Rightarrow> (js_error + unit) \<times> world" where
  "ensure_directory p w outputPath =
     (let dir = path_dirname p outputPath
      in if \<not> fs_existsSync w dir then fs_mkdirSync p w dir else (Inr (), w))"

text \<open>The body of the \<^verbatim>\<open>try\<close> block of \<open>CSVExporter.export\<close>.\<close>

definition CSVExporter_try ::
  "platform \<Rightarrow> world \<Rightarrow> jsval \<Rightarrow> string \<Rightarrow> ExportOptions option \<Rightarrow> (js_error + bool) \<times> world" where
  "CSVExporter_try p w data outputPath options =
     (case processData p w data options of
        (Inl e, w1) \<Rightarrow> (Inl e, w1)
      | (Inr processedData, w1) \<Rightarrow>
          if length processedData = 0
          then (Inr False, logger (LogWarn ''No data to export to CSV'') w1)
          else
            (case ensure_directory p w1 outputPath of
               (Inl e, w2) \<Rightarrow> (Inl e, w2)
             | (Inr _, w2) \<Rightarrow>
                 (case Object_keys (processedData ! 0) of
                    Inl e \<Rightarrow> (Inl e, w2)
                  | Inr headers \<Rightarrow>
                      (case convertToCSV processedData headers of
                         Inl e \<Rightarrow> (Inl e, w2)
                       | Inr csvContent \<Rightarrow>
                           (case fs_writeFileSync p w2 outputPath csvContent of
                              (Inl e, w3) \<Rightarrow> (Inl e, w3)
                            | (Inr _, w3) \<Rightarrow>
                                (Inr True,
                                 logger
                                   (LogInfo (''Successfully exported ''
                                      @ string_of_nat (length processedData)
                                      @ '' records to CSV: '' @ outputPath))
                                   w3))))))"

text \<open>
  \<open>CSVExporter.export\<close>: the \<^verbatim>\<open>catch\<close> logs the error's message after a prefix and returns
  false.
\<close>

definition CSVExporter_export ::
  "platform \<Rightarrow> world \<Rightarrow> jsval \<Rightarrow> string \<Rightarrow> ExportOptions option \<Rightarrow> (js_error + bool) \<times> world" where
  "CSVExporter_export p w data outputPath options =
     (case CSVExporter_try p w data outputPath options of
        (Inl e, w') \<Rightarrow> (Inr False, logger (LogErrorOf ''Error exporting to CSV: '' e) w')
      | (Inr b, w') \<Rightarrow> (Inr b, w'))"

section \<open>JSONExporter\<close>

text \<open>The envelope \<open>exportData\<close> that \<open>JSONExporter.export\<close> writes.\<close>

definition exportData :: "string \<Rightarrow> jsval list \<Rightarrow> jsval" where
  "exportData exportedAt processedData =
     JObj [(''metadata'',
            JObj [(''exportedAt'', JStr exportedAt),
                  (''recordCount'', JNum (int (length processedData))),
                  (''version'', JStr ''1.0.0'')]),
           (''data'', JArr processedData)]"

definition JSONExporter_try ::
  "platform \<Rightarrow> world \<Rightarrow> jsval \<Rightarrow> string \<Rightarrow> ExportOptions option \<Rightarrow> (js_error + bool) \<times> world" where
  "JSONExporter_try p w data outputPath options =
     (case processData p w data options of
        (Inl e, w1) \<Rightarrow> (Inl e, w1)
      | (Inr processedData, w1) \<Rightarrow>
          if length processedData = 0
          then (Inr False, logger (LogWarn ''No data to export to JSON'') w1)
          else
            (case ensure_directory p w1 outputPath of
               (Inl e, w2) \<Rightarrow> (Inl e, w2)
             | (Inr _, w2) \<Rightarrow>
                 (case Date_now_toISOString p w2 of
                    (exportedAt, w3) \<Rightarrow>
                      (case JSON_stringify (replicate 2 CHR '' '') (exportData exportedAt processedData) of
                         None \<Rightarrow> (Inl TypeError, w3)
                       | Some content \<Rightarrow>
                           (case fs_writeFileSync p w3 outputPath content of
                              (Inl e, w4) \<Rightarrow> (Inl e, w4)
                            | (Inr _, w4) \<Rightarrow>
                                (Inr True,
                                 logger
                                   (LogInfo (''Successfully exported ''
                                      @ string_of_nat (length processedData)
                                      @ '' records to JSON: '' @ outputPath))
                                   w4))))))"

definition JSONExporter_export ::
  "platform \<Rightarrow> world \<Rightarrow> jsval \<Rightarrow> string \<Rightarrow> ExportOptions option \<Rightarrow> (js_error + bool) \<times> world" where
  "JSONExporter_export p w data outputPath options =
     (case JSONExporter_try p w data outputPath options of
        (Inl e, w') \<Rightarrow> (Inr False, logger (LogErrorOf ''Error exporting to JSON: '' e) w')
      | (Inr b, w') \<Rightarrow> (Inr b, w'))"

section \<open>ExportManager\<close>

text \<open>
  An exporter is anything with the \<open>export\<close> method of \<open>BaseExporter\<close>; it may throw. The
  manager holds the registered exporters by format. \<open>PDFExporter\<close> is not among the
  sources: the constructor takes it as given.
\<close>

type_synonym exporter =
  "platform \<Rightarrow> world \<Rightarrow> jsval \<Rightarrow> string \<Rightarrow> ExportOptions option \<Rightarrow> (js_error + bool) \<times> world"

definition ExportFormat_CSV :: string where
  "ExportFormat_CSV = ''csv''"

definition ExportFormat_JSON :: string where
  "ExportFormat_JSON = ''json''"

definition ExportFormat_PDF :: string where
  "ExportFormat_PDF = ''pdf''"

record ExportRequest =
  req_data :: jsval
  req_format :: string
  req_outputPath :: string
  req_options :: "ExportOptions option"

record ExportManager =
  exporters :: "string \<rightharpoonup> exporter"

definition registerExporter :: "string \<Rightarrow> exporter \<Rightarrow> ExportManager \<Rightarrow> ExportManager" where
  "registerExporter fmt ex m = m\<lparr>exporters := (exporters m)(fmt \<mapsto> ex)\<rparr>"

definition new_ExportManager :: "exporter \<Rightarrow> ExportManager" where
  "new_ExportManager PDFExporter_export =
     registerExporter ExportFormat_PDF PDFExporter_export
       (registerExporter ExportFormat_JSON JSONExporter_export
         (registerExporter ExportFormat_CSV CSVExporter_export \<lparr>exporters = Map.empty\<rparr>))"

definition ExportManager_export ::
  "platform \<Rightarrow> ExportManager \<Rightarrow> world \<Rightarrow> ExportRequest \<Rightarrow> (js_error + bool) \<times> world" where
  "ExportManager_export p m w request =
     (if \<not> truthy (req_data request) \<or> \<not> Array_isArray (req_data request)
         \<or> (case req_data request of JArr xs \<Rightarrow> length xs = 0 | _ \<Rightarrow> False)
      then (Inr False, logger (LogError ''No data to export'') w)
      else
        case exporters m (req_format request) of
          None \<Rightarrow>
            (Inr False, logger (LogError (''Unsupported export format: '' @ req_format request)) w)
        | Some ex \<Rightarrow>
            (case ex p w (req_data request) (req_outputPath request) (req_options request) of
               (Inr result, w') \<Rightarrow> (Inr result, w')
             | (Inl e, w') \<Rightarrow> (Inr False, logger (LogErrorOf ''Export failed: '' e) w')))"

text \<open>
  The loop of \<open>exportMultiple\<close>, \<open>results\<close> being the object under construction; an
  exception of \<open>export\<close> would end it. A kind is a value of the enumeration \<open>ExportFormat\<close>,
  so never the name \<^verbatim>\<open>__proto__\<close>: \<^verbatim>\<open>results[format] = ...\<close> makes or updates an own property.
\<close>

fun exportMultiple_loop ::
  "platform \<Rightarrow> ExportManager \<Rightarrow> jsval \<Rightarrow> string \<Rightarrow> ExportOptions option \<Rightarrow> string list
     \<Rightarrow> (string \<times> bool) list \<Rightarrow> world \<Rightarrow> (js_error + (string \<times> bool) list) \<times> world" where
  "exportMultiple_loop p m data basePath options [] results w = (Inr results, w)"
| "exportMultiple_loop p m data basePath options (fmt # formats) results w =
     (let outputPath = basePath @ ''.'' @ fmt
      in case ExportManager_export p m w
                \<lparr>req_data = data, req_format = fmt, req_outputPath = outputPath,
                 req_options = options\<rparr> of
           (Inl e, w') \<Rightarrow> (Inl e, w')
         | (Inr b, w') \<Rightarrow>
             exportMultiple_loop p m data basePath options formats (set_property fmt b results) w')"

definition exportMultiple ::
  "platform \<Rightarrow> ExportManager \<Rightarrow> world \<Rightarrow> jsval \<Rightarrow> string \<Rightarrow> string list \<Rightarrow> ExportOptions option
     \<Rightarrow> (js_error + (string \<times> bool) list) \<times> world" where
  "exportMultiple p m w data basePath formats options =
     exportMultiple_loop p m data basePath options formats [] w"

section \<open>Notions of the specification\<close>


text \<open>
  What a record has under a name: the value of its field of that name; where it has no
  such field, the member of \<^verbatim>\<open>Object.prototype\<close> of that name, and undefined where there is
  none either.
\<close>

definition member_of :: "(string \<times> jsval) list \<Rightarrow> string \<Rightarrow> property" where
  "member_of kvs k =
     (case map_of kvs k of
        Some v \<Rightarrow> Data v
      | None \<Rightarrow> (case Object_prototype_member k of Some member \<Rightarrow> member | None \<Rightarrow> Data JUndefined))"

text \<open>
  A record matches a filter when, for every pair of the filter, what it has under the
  field is a value strictly equal to the pair's value.
\<close>

definition record_matches :: "(string \<times> jsval) list \<Rightarrow> jsval \<Rightarrow> bool" where
  "record_matches fo r =
     list_all (\<lambda>(k, v). case get_property r k of
                            Inr (Data x) \<Rightarrow> strict_equal x v
                          | _ \<Rightarrow> False) fo"


text \<open>
  The text of a cell of the table, by the type of what the record has under the header:
  nothing for null and undefined; for a nested object or array its one-line JSON text, for
  a string the string itself, in both cases with every double quote doubled and the whole
  between double quotes; for a number or a boolean its literal text. An inherited member
  is written as JavaScript writes it: a function as its source text, \<^verbatim>\<open>Object.prototype\<close> as
  the quoted JSON text of an empty object.
\<close>

fun csv_cell_text :: "property \<Rightarrow> string" where
  "csv_cell_text (Data JUndefined) = []"
| "csv_cell_text (Data JNull) = []"
| "csv_cell_text (Data (JBool b)) = (if b then ''true'' else ''false'')"
| "csv_cell_text (Data (JNum i)) = Number_toString i"
| "csv_cell_text (Data (JStr s)) = [double_quote] @ double_the_quotes s @ [double_quote]"
| "csv_cell_text (Data (JArr xs)) =
     [double_quote] @ double_the_quotes (SerializeJSONProperty [] [] (JArr xs)) @ [double_quote]"
| "csv_cell_text (Data (JObj kvs)) =
     [double_quote] @ double_the_quotes (SerializeJSONProperty [] [] (JObj kvs)) @ [double_quote]"
| "csv_cell_text (Builtin_function f) = ''function '' @ f @ ''() { [native code] }''"
| "csv_cell_text Object_prototype = [double_quote] @ ''{}'' @ [double_quote]"

text \<open>
  The table: the header row first, the names joined by commas; then one row for each
  record, its cells under the headers joined by commas; the rows joined by line feeds.
\<close>

definition csv_text :: "string list \<Rightarrow> jsval list \<Rightarrow> string" where
  "csv_text headers records =
     js_join [newline]
       (js_join '','' headers
        # map (\<lambda>r. js_join '','' (map (\<lambda>h. csv_cell_text (member_of (own_properties r) h)) headers))
            records)"


text \<open>The request that \<open>exportMultiple\<close> makes for a kind.\<close>

definition request_for :: "jsval \<Rightarrow> string \<Rightarrow> ExportOptions option \<Rightarrow> string \<Rightarrow> ExportRequest" where
  "request_for data basePath options kind =
     \<lparr>req_data = data, req_format = kind, req_outputPath = basePath @ ''.'' @ kind,
      req_options = options\<rparr>"

text \<open>The results object after the outcomes of the kinds have been assigned in turn.\<close>

fun assign_results :: "(string \<times> bool) list \<Rightarrow> (string \<times> bool) list \<Rightarrow> (string \<times> bool) list" where
  "assign_results results [] = results"
| "assign_results results ((k, b) # kbs) = assign_results (set_property k b results) kbs"

subsection \<open>A platform, a world and records to run the examples with\<close>

text \<open>
  \<open>example_platform\<close> never fails; on \<open>readonly_platform\<close> every write fails.
  \<open>failing_exporter\<close> is an exporter that throws.
\<close>

definition posix_dirname :: "string \<Rightarrow> string" where
  "posix_dirname path =
     (let d = rev (dropWhile (\<lambda>c. c \<noteq> CHR ''/'') (rev path))
      in if d = [] then ''.'' else if d = ''/'' then ''/'' else butlast d)"

definition example_platform :: platform where
  "example_platform =
     \<lparr>clock = (\<lambda>n. ''2024-01-01T00:00:0'' @ string_of_nat n @ ''.000Z''),
      path_dirname = posix_dirname,
      mkdir_fault = (\<lambda>d. None),
      write_fault = (\<lambda>f. None)\<rparr>"

definition example_world :: world where
  "example_world = \<lparr>ticks = 0, fs_dirs = {''/tmp''}, fs_files = Map.empty, logged = []\<rparr>"

definition readonly_platform :: platform where
  "readonly_platform = example_platform\<lparr>write_fault := (\<lambda>f. Some ''EACCES: permission denied'')\<rparr>"

definition failing_exporter :: exporter where
  "failing_exporter p w data outputPath options = (Inl (IOError ''stream closed''), w)"

definition example_records :: "jsval list" where
  "example_records =
     [JObj [(''id'', JNum 1), (''name'', JStr ''Alice'')],
      JObj [(''id'', JNum 2), (''name'', JStr ''Bob'')]]"

section \<open>Properties of property assignment\<close>

lemma keys_insert_index:
  "fst ` set (insert_index n k v kvs) = insert k (fst ` set kvs)"
proof (induction kvs)
  case Nil
  show ?case by simp
next
  case (Cons a kvs)
  obtain k' v' where a: "a = (k', v')" by (cases a)
  show ?case
  proof (cases "\<exists>n'. array_index k' = Some n' \<and> n' < n")
    case True
    then have "insert_index n k v (a # kvs) = a # insert_index n k v kvs"
      by (auto simp: a)
    then show ?thesis
      by (simp add: Cons.IH insert_commute)
  next
    case False
    then have "insert_index n k v (a # kvs) = (k, v) # a # kvs"
      by (auto simp: a split: option.splits)
    then show ?thesis
      by simp
  qed
qed

lemma map_of_insert_index:
  "map_of kvs k = None \<Longrightarrow> map_of (insert_index n k v kvs) = (map_of kvs)(k \<mapsto> v)"
  by (induction kvs) (auto split: option.splits if_splits simp: fun_eq_iff)

lemma distinct_insert_index:
  "k \<notin> fst ` set kvs \<Longrightarrow> distinct (map fst kvs) \<Longrightarrow> distinct (map fst (insert_index n k v kvs))"
proof (induction kvs)
  case Nil
  then show ?case by simp
next
  case (Cons a kvs)
  obtain k' v' where a: "a = (k', v')" by (cases a)
  from Cons.prems have "k' \<notin> fst ` set (insert_index n k v kvs)"
    unfolding keys_insert_index a by auto
  with Cons a show ?case
    by (auto split: option.splits)
qed


lemma names_replace_value: "map fst (replace_value k v kvs) = map fst kvs"
  by (induction kvs) auto

lemma map_of_replace_value:
  "map_of (replace_value k v kvs) x = (if x = k \<and> map_of kvs k \<noteq> None then Some v else map_of kvs x)"
  by (induction kvs) auto

lemma keys_set_property:
  "fst ` set (set_property k v kvs) = insert k (fst ` set kvs)"
proof (cases "k \<in> fst ` set kvs")
  case True
  have "set (map fst (replace_value k v kvs)) = set (map fst kvs)"
    by (simp only: names_replace_value)
  with True show ?thesis
    unfolding set_property_def by auto
next
  case False
  then show ?thesis
    unfolding set_property_def
    by (simp add: keys_insert_index split: option.splits)
qed

lemma map_of_set_property:
  "map_of (set_property k v kvs) = (map_of kvs)(k \<mapsto> v)"
proof (cases "k \<in> fst ` set kvs")
  case True
  then have "map_of kvs k \<noteq> None"
    by (simp add: map_of_eq_None_iff)
  with True show ?thesis
    unfolding set_property_def by (auto simp: map_of_replace_value fun_eq_iff)
next
  case False
  then have "map_of kvs k = None"
    by (simp add: map_of_eq_None_iff)
  with False show ?thesis
    unfolding set_property_def
    by (auto simp: map_of_insert_index fun_eq_iff map_add_def split: option.splits)
qed

lemma distinct_set_property:
  "distinct (map fst kvs) \<Longrightarrow> distinct (map fst (set_property k v kvs))"
  unfolding set_property_def
  by (auto simp: names_replace_value distinct_insert_index split: option.splits)


section \<open>Properties of the transform pipeline\<close>

subsection \<open>Callbacks that do not throw\<close>

lemma map_throwing_total:
  "(\<And>x. x \<in> set xs \<Longrightarrow> f x = Inr (g x)) \<Longrightarrow> map_throwing f xs = Inr (map g xs)"
  by (induction xs) simp_all

lemma filter_throwing_total:
  "(\<And>x. x \<in> set xs \<Longrightarrow> f x = Inr (g x)) \<Longrightarrow> filter_throwing f xs = Inr (filter g xs)"
  by (induction xs) simp_all

lemma map_throwing_pointwise:
  assumes "\<And>x. x \<in> set xs \<Longrightarrow> \<exists>y. f x = Inr y"
  shows "\<exists>ys. map_throwing f xs = Inr ys \<and> length ys = length xs
           \<and> (\<forall>i < length xs. f (xs ! i) = Inr (ys ! i))"
  using assms
proof (induction xs)
  case Nil
  show ?case by simp
next
  case (Cons x xs)
  from Cons.prems obtain y where y: "f x = Inr y"
    by auto
  from Cons obtain ys where ys: "map_throwing f xs = Inr ys" "length ys = length xs"
      "\<forall>i < length xs. f (xs ! i) = Inr (ys ! i)"
    by auto
  have "\<forall>i < length (x # xs). f ((x # xs) ! i) = Inr ((y # ys) ! i)"
    using y ys(3) by (auto simp: nth_Cons split: nat.splits)
  with y ys show ?case
    by simp
qed

lemma get_property_record: "get_property (JObj kvs) k = Inr (member_of kvs k)"
  by (simp add: get_property_def member_of_def)



lemma member_of_missing:
  assumes "k \<notin> fst ` set kvs"
  shows "member_of kvs k = Data JUndefined \<or> (\<forall>x. member_of kvs k \<noteq> Data x)"
proof -
  from assms have "map_of kvs k = None"
    by (simp add: map_of_eq_None_iff)
  then show ?thesis
    by (auto simp: member_of_def Object_prototype_member_def split: option.splits)
qed


subsection \<open>The filter step on records\<close>

lemma strict_equal_undefined: "strict_equal JUndefined v = (v = JUndefined)"
  by (cases v) simp_all

lemma property_equals_Data: "property_equals x v = (\<exists>y. x = Data y \<and> strict_equal y v)"
  by (cases x) simp_all

lemma filter_callback_record:
  "filter_callback fo (JObj kvs) = Inr (\<forall>(k, v) \<in> set fo. property_equals (member_of kvs k) v)"
  by (induction fo) (auto simp: get_property_record)

lemma record_matches_iff:
  "record_matches fo r
     = (\<forall>(k, v) \<in> set fo. \<exists>x. get_property r k = Inr (Data x) \<and> strict_equal x v)"
proof -
  have "(case get_property r k of Inr (Data x) \<Rightarrow> strict_equal x v | _ \<Rightarrow> False)
          = (\<exists>x. get_property r k = Inr (Data x) \<and> strict_equal x v)" for k v
    by (cases "get_property r k") (auto split: property.splits)
  then show ?thesis
    by (simp add: record_matches_def list_all_iff)
qed

lemma filter_callback_matches:
  "is_record r \<Longrightarrow> filter_callback fo r = Inr (record_matches fo r)"
  by (cases r)
     (simp_all add: is_record_def filter_callback_record record_matches_iff get_property_record
        property_equals_Data)

lemma filterData_filter:
  assumes "list_all is_record data"
  shows "filterData data fo = Inr (filter (record_matches fo) data)"
  unfolding filterData_def
  using assms by (intro filter_throwing_total filter_callback_matches) (simp add: list_all_iff)

lemma missing_field_no_match:
  assumes "k \<notin> fst ` set (own_properties r)" "is_record r" "(k, v) \<in> set fo" "v \<noteq> JUndefined"
  shows "\<not> record_matches fo r"
proof -
  from assms(2) obtain kvs where r: "r = JObj kvs"
    by (cases r) (simp_all add: is_record_def)
  with assms(1) have "k \<notin> fst ` set kvs"
    by (simp add: own_properties_def)
  from member_of_missing [OF this] assms(4)
  have "\<not> (\<exists>x. get_property r k = Inr (Data x) \<and> strict_equal x v)"
    by (auto simp: r get_property_record strict_equal_undefined)
  with assms(3) show ?thesis
    unfolding record_matches_iff by blast
qed

subsection \<open>The projection step on records\<close>









subsection \<open>The annotation step\<close>

lemma stamp_fields:
  "\<exists>res. stamp ts item = JObj res
     \<and> map_of res ''_exportedAt'' = Some (JStr ts)
     \<and> map_of res ''_exportVersion'' = Some (JStr ''1.0.0'')
     \<and> fst ` set res = fst ` set (own_properties item) \<union> {''_exportedAt'', ''_exportVersion''}
     \<and> (\<forall>k. k \<notin> {''_exportedAt'', ''_exportVersion''} \<longrightarrow> map_of res k = map_of (own_properties item) k)"
  by (auto simp: stamp_def map_of_set_property keys_set_property)

lemma processData_metadata:
  assumes "includeMetadata opts = Some True"
    and "processData p w (JArr C) (Some opts) = (Inr out, w')"
  shows "\<exists>pre. out = map (stamp (clock p (ticks w))) pre \<and> w' = w\<lparr>ticks := Suc (ticks w)\<rparr>"
proof -
  from assms(2) obtain pre where "addMetadata p w pre = (out, w')"
    unfolding processData_def
    by (simp add: truthy_def Array_isArray_def assms(1) Let_def split: sum.splits prod.splits)
  then show ?thesis
    by (auto simp: addMetadata_def Date_now_toISOString_def)
qed

lemma processData_not_array:
  "\<not> Array_isArray data \<Longrightarrow> processData p w data options = (Inr [], w)"
  by (simp add: processData_def)

section \<open>Properties of the serializations\<close>

subsection \<open>The one-line JSON text has no line feed\<close>










subsection \<open>Members in the order of the value\<close>

lemma SerializeJSONArray_map:
  "SerializeJSONArray gap ind xs = map (SerializeJSONProperty gap ind) xs"
  by (induction xs) simp_all

lemma SerializeJSONObject_map:
  "SerializeJSONObject gap ind kvs =
     map (\<lambda>(k, v). QuoteJSONString k @ '':'' @ (if gap = [] then [] else '' '')
                    @ SerializeJSONProperty gap ind v)
       (filter (\<lambda>(k, v). v \<noteq> JUndefined) kvs)"
  by (induction kvs) auto

lemma Number_toString_nat: "Number_toString (int n) = string_of_nat n"
  by (simp add: string_of_nat_def)

lemma two_spaces: "replicate 2 CHR '' '' = ''  ''"
  by (simp add: numeral_2_eq_2)

lemma exportData_text:
  assumes "processedData \<noteq> []"
  shows "JSON_stringify ''  '' (exportData exportedAt processedData)
     = Some (''{'' @ [newline]
         @ ''  '' @ QuoteJSONString ''metadata'' @ '': {'' @ [newline]
         @ ''    '' @ QuoteJSONString ''exportedAt'' @ '': '' @ QuoteJSONString exportedAt @ '','' @ [newline]
         @ ''    '' @ QuoteJSONString ''recordCount'' @ '': '' @ string_of_nat (length processedData)
           @ '','' @ [newline]
         @ ''    '' @ QuoteJSONString ''version'' @ '': '' @ QuoteJSONString ''1.0.0'' @ [newline]
         @ ''  },'' @ [newline]
         @ ''  '' @ QuoteJSONString ''data'' @ '': ['' @ [newline]
         @ ''    '' @ js_join ('','' @ [newline] @ ''    '')
                       (map (SerializeJSONProperty ''  '' ''    '') processedData) @ [newline]
         @ ''  ]'' @ [newline]
         @ ''}'')"
  using assms
  by (simp add: JSON_stringify_def exportData_def json_wrap_def SerializeJSONArray_map
      Number_toString_nat)

subsection \<open>The table of a collection of records\<close>

lemma csv_cell_record:
  "\<exists>c. csv_cell (JObj kvs) h = Inr c
     \<and> (if c = Data JNull \<or> c = Data JUndefined then [] else property_ToString c)
         = csv_cell_text (member_of kvs h)"
proof (cases "member_of kvs h")
  case (Data v)
  then show ?thesis
    by (cases v)
       (simp_all add: csv_cell_def get_property_record typeof_def JSON_stringify_property_def
          JSON_stringify_def)
next
  case (Builtin_function f)
  then show ?thesis
    by (simp add: csv_cell_def get_property_record typeof_def)
next
  case Object_prototype
  have "double_the_quotes ''{}'' = ''{}''"
    by (simp add: double_the_quotes_def double_quote_def)
  with Object_prototype show ?thesis
    by (simp add: csv_cell_def get_property_record typeof_def JSON_stringify_property_def)
qed

lemma csv_row_record:
  "csv_row headers (JObj kvs) = Inr (js_join '','' (map (\<lambda>h. csv_cell_text (member_of kvs h)) headers))"
proof -
  let ?text = "\<lambda>x. if x = Data JNull \<or> x = Data JUndefined then [] else property_ToString x"
  have "\<exists>y. csv_cell (JObj kvs) h = Inr y" for h
    using csv_cell_record [of kvs h] by blast
  from map_throwing_pointwise [of headers "csv_cell (JObj kvs)", OF this]
  obtain cells where cells: "map_throwing (csv_cell (JObj kvs)) headers = Inr cells"
      "length cells = length headers"
      "\<forall>i < length headers. csv_cell (JObj kvs) (headers ! i) = Inr (cells ! i)"
    by blast
  have "map ?text cells = map (\<lambda>h. csv_cell_text (member_of kvs h)) headers"
  proof (rule nth_equalityI)
    show "length (map ?text cells) = length (map (\<lambda>h. csv_cell_text (member_of kvs h)) headers)"
      using cells(2) by simp
  next
    fix i
    assume "i < length (map ?text cells)"
    then have i: "i < length headers"
      using cells(2) by simp
    with cells(3) have "csv_cell (JObj kvs) (headers ! i) = Inr (cells ! i)"
      by blast
    with csv_cell_record [of kvs "headers ! i"]
    have "?text (cells ! i) = csv_cell_text (member_of kvs (headers ! i))"
      by auto
    with i cells(2)
    show "map ?text cells ! i = map (\<lambda>h. csv_cell_text (member_of kvs h)) headers ! i"
      by simp
  qed
  with cells(1) show ?thesis
    by (simp add: csv_row_def Array_join_def)
qed

lemma convertToCSV_records:
  assumes "list_all is_record records"
  shows "convertToCSV records headers = Inr (csv_text headers records)"
proof -
  have "csv_row headers r
          = Inr (js_join '','' (map (\<lambda>h. csv_cell_text (member_of (own_properties r) h)) headers))"
    if "r \<in> set records" for r
  proof -
    from assms that obtain kvs where "r = JObj kvs"
      by (cases r) (auto simp: list_all_iff is_record_def)
    then show ?thesis
      by (simp add: csv_row_record own_properties_def)
  qed
  then have "map_throwing (csv_row headers) records
      = Inr (map (\<lambda>r. js_join '','' (map (\<lambda>h. csv_cell_text (member_of (own_properties r) h)) headers))
               records)"
    by (rule map_throwing_total)
  then show ?thesis
    by (simp add: convertToCSV_def csv_text_def)
qed

section \<open>Properties of the exporters\<close>

lemma processData_no_options: "processData p w (JArr C) None = (Inr C, w)"
  by (simp add: processData_def truthy_def Array_isArray_def)


lemma JSONExporter_try_success:
  assumes "processData p w data options = (Inr processedData, w1)"
    and "processedData \<noteq> []"
    and "ensure_directory p w1 outputPath = (Inr (), w2)"
    and "write_fault p outputPath = None"
    and "JSON_stringify ''  '' (exportData (clock p (ticks w2)) processedData) = Some content"
  shows "JSONExporter_try p w data outputPath options
           = (Inr True,
              logger (LogInfo (''Successfully exported '' @ string_of_nat (length processedData)
                               @ '' records to JSON: '' @ outputPath))
                (w2\<lparr>ticks := Suc (ticks w2), fs_files := (fs_files w2)(outputPath \<mapsto> content)\<rparr>))"
  using assms
  by (simp add: JSONExporter_try_def Date_now_toISOString_def two_spaces fs_writeFileSync_def)

lemma CSVExporter_export_returns:
  "\<exists>b. fst (CSVExporter_export p w data outputPath options) = Inr b"
  by (auto simp: CSVExporter_export_def split: prod.splits sum.splits)

lemma JSONExporter_export_returns:
  "\<exists>b. fst (JSONExporter_export p w data outputPath options) = Inr b"
  by (auto simp: JSONExporter_export_def split: prod.splits sum.splits)

lemma exporters_nothing_to_export:
  assumes "processData p w data options = (Inr [], w1)"
  shows "CSVExporter_export p w data outputPath options
           = (Inr False, logger (LogWarn ''No data to export to CSV'') w1)"
    and "JSONExporter_export p w data outputPath options
           = (Inr False, logger (LogWarn ''No data to export to JSON'') w1)"
  using assms
  by (simp_all add: CSVExporter_export_def CSVExporter_try_def JSONExporter_export_def
      JSONExporter_try_def)

lemma exporters_write_fault:
  assumes "processData p w data options = (Inr (r # rs), w1)"
    and "ensure_directory p w1 outputPath = (Inr (), w2)"
    and "write_fault p outputPath = Some msg"
  shows "list_all is_record (r # rs) \<longrightarrow>
         CSVExporter_export p w data outputPath options
           = (Inr False, logger (LogErrorOf ''Error exporting to CSV: '' (IOError msg)) w2)"
    and "JSONExporter_export p w data outputPath options
           = (Inr False, logger (LogErrorOf ''Error exporting to JSON: '' (IOError msg))
                (w2\<lparr>ticks := Suc (ticks w2)\<rparr>))"
proof -
  show "list_all is_record (r # rs) \<longrightarrow>
         CSVExporter_export p w data outputPath options
           = (Inr False, logger (LogErrorOf ''Error exporting to CSV: '' (IOError msg)) w2)"
  proof
    assume recs: "list_all is_record (r # rs)"
    then obtain kvs where r: "r = JObj kvs"
      by (cases r) (simp_all add: is_record_def)
    from recs have "convertToCSV (r # rs) (map fst kvs) = Inr (csv_text (map fst kvs) (r # rs))"
      by (rule convertToCSV_records)
    with assms r show "CSVExporter_export p w data outputPath options
           = (Inr False, logger (LogErrorOf ''Error exporting to CSV: '' (IOError msg)) w2)"
      by (simp add: CSVExporter_export_def CSVExporter_try_def Object_keys_def own_properties_def
          fs_writeFileSync_def)
  qed
  show "JSONExporter_export p w data outputPath options
           = (Inr False, logger (LogErrorOf ''Error exporting to JSON: '' (IOError msg))
                (w2\<lparr>ticks := Suc (ticks w2)\<rparr>))"
    using assms
    by (simp add: JSONExporter_export_def JSONExporter_try_def Date_now_toISOString_def
        JSON_stringify_def exportData_def fs_writeFileSync_def)
qed

lemma exporters_mkdir_fault:
  assumes "processData p w data options = (Inr (r # rs), w1)"
    and "\<not> fs_existsSync w1 (path_dirname p outputPath)"
    and "mkdir_fault p (path_dirname p outputPath) = Some msg"
  shows "CSVExporter_export p w data outputPath options
           = (Inr False, logger (LogErrorOf ''Error exporting to CSV: '' (IOError msg)) w1)"
    and "JSONExporter_export p w data outputPath options
           = (Inr False, logger (LogErrorOf ''Error exporting to JSON: '' (IOError msg)) w1)"
  using assms
  by (simp_all add: CSVExporter_export_def CSVExporter_try_def JSONExporter_export_def
      JSONExporter_try_def ensure_directory_def fs_mkdirSync_def)

lemma exporters_true_only_with_records:
  "fst (CSVExporter_export p w data outputPath options) = Inr True \<longrightarrow>
     (\<exists>r rs. fst (processData p w data options) = Inr (r # rs))"
  "fst (JSONExporter_export p w data outputPath options) = Inr True \<longrightarrow>
     (\<exists>r rs. fst (processData p w data options) = Inr (r # rs))"
proof -
  obtain res w1 where pd: "processData p w data options = (res, w1)"
    by (cases "processData p w data options")
  show "fst (CSVExporter_export p w data outputPath options) = Inr True \<longrightarrow>
     (\<exists>r rs. fst (processData p w data options) = Inr (r # rs))"
  proof (cases res)
    case (Inl e)
    with pd show ?thesis
      by (simp add: CSVExporter_export_def CSVExporter_try_def)
  next
    case (Inr xs)
    with pd show ?thesis
      by (cases xs) (simp_all add: CSVExporter_export_def CSVExporter_try_def)
  qed
  show "fst (JSONExporter_export p w data outputPath options) = Inr True \<longrightarrow>
     (\<exists>r rs. fst (processData p w data options) = Inr (r # rs))"
  proof (cases res)
    case (Inl e)
    with pd show ?thesis
      by (simp add: JSONExporter_export_def JSONExporter_try_def)
  next
    case (Inr xs)
    with pd show ?thesis
      by (cases xs) (simp_all add: JSONExporter_export_def JSONExporter_try_def)
  qed
qed

section \<open>Properties of the manager\<close>

lemma ExportManager_export_returns:
  "\<exists>b. fst (ExportManager_export p m w request) = Inr b"
  by (auto simp: ExportManager_export_def split: option.splits sum.splits prod.splits)

lemma exporters_new_ExportManager:
  "exporters (new_ExportManager pdf) =
     [ExportFormat_CSV \<mapsto> CSVExporter_export, ExportFormat_JSON \<mapsto> JSONExporter_export,
      ExportFormat_PDF \<mapsto> pdf]"
  by (simp add: new_ExportManager_def registerExporter_def)

lemma keys_assign_results:
  "fst ` set (assign_results results kbs) = fst ` set results \<union> fst ` set kbs"
  by (induction results kbs rule: assign_results.induct) (auto simp: keys_set_property)

lemma distinct_assign_results:
  "distinct (map fst results) \<Longrightarrow> distinct (map fst (assign_results results kbs))"
  by (induction results kbs rule: assign_results.induct) (auto simp: distinct_set_property)

lemma map_of_assign_results:
  "map_of (assign_results results kbs) = map_of results ++ map_of (rev kbs)"
  by (induction results kbs rule: assign_results.induct)
     (auto simp: map_of_set_property fun_eq_iff map_add_def split: option.splits)

lemma exportMultiple_loop_trace:
  "\<exists>outcomes ws.
     exportMultiple_loop p m data basePath options kinds results w
       = (Inr (assign_results results (zip kinds outcomes)), last (w # ws))
     \<and> length outcomes = length kinds \<and> length ws = length kinds
     \<and> (\<forall>i < length kinds.
           ExportManager_export p m ((w # ws) ! i) (request_for data basePath options (kinds ! i))
             = (Inr (outcomes ! i), ws ! i))"
proof (induction kinds arbitrary: results w)
  case Nil
  show ?case by simp
next
  case (Cons k kinds)
  obtain b w1 where first:
    "ExportManager_export p m w (request_for data basePath options k) = (Inr b, w1)"
    using ExportManager_export_returns [of p m w "request_for data basePath options k"]
    by (cases "ExportManager_export p m w (request_for data basePath options k)") auto
  from Cons.IH [of "set_property k b results" w1] obtain outcomes ws where rest:
    "exportMultiple_loop p m data basePath options kinds (set_property k b results) w1
       = (Inr (assign_results (set_property k b results) (zip kinds outcomes)), last (w1 # ws))"
    "length outcomes = length kinds" "length ws = length kinds"
    "\<forall>i < length kinds.
           ExportManager_export p m ((w1 # ws) ! i) (request_for data basePath options (kinds ! i))
             = (Inr (outcomes ! i), ws ! i)"
    by blast
  have step: "\<forall>i < length (k # kinds).
           ExportManager_export p m ((w # w1 # ws) ! i) (request_for data basePath options ((k # kinds) ! i))
             = (Inr ((b # outcomes) ! i), (w1 # ws) ! i)"
  proof (intro allI impI)
    fix i assume "i < length (k # kinds)"
    then show "ExportManager_export p m ((w # w1 # ws) ! i)
                 (request_for data basePath options ((k # kinds) ! i))
             = (Inr ((b # outcomes) ! i), (w1 # ws) ! i)"
      using first rest(4) by (cases i) auto
  qed
  have "exportMultiple_loop p m data basePath options (k # kinds) results w
       = (Inr (assign_results results (zip (k # kinds) (b # outcomes))), last (w # w1 # ws))"
    using first rest(1) by (simp add: request_for_def)
  with rest(2,3) step show ?case
    by (intro exI [of _ "b # outcomes"] exI [of _ "w1 # ws"]) simp
qed

section \<open>The claims about the transform pipeline\<close>

text \<open>
  C10. \<open>processData\<close> is total on malformed input: for a data argument that is null,
  undefined or not an array it returns the empty collection, raises nothing and leaves
  the world as it was.
\<close>

theorem processData_malformed_input:
  assumes "data = JNull \<or> data = JUndefined \<or> \<not> Array_isArray data"
  shows "processData p w data options = (Inr [], w)"
proof -
  from assms have "\<not> Array_isArray data"
    by (auto simp: Array_isArray_def)
  then show ?thesis
    by (rule processData_not_array)
qed

theorem processData_malformed_input_witness:
  "processData example_platform example_world JNull None = (Inr [], example_world)
   \<and> processData example_platform example_world JUndefined None = (Inr [], example_world)
   \<and> processData example_platform example_world (JStr ''rows'')
        (Some \<lparr>includeMetadata = Some True, customFields = None, filterOptions = None\<rparr>)
       = (Inr [], example_world)"
  using processData_malformed_input [of JNull example_platform example_world None]
    processData_malformed_input [of JUndefined example_platform example_world None]
    processData_malformed_input [of "JStr ''rows''" example_platform example_world
      "Some \<lparr>includeMetadata = Some True, customFields = None, filterOptions = None\<rparr>"]
  by (simp add: Array_isArray_def)

text \<open>
  C5. Without options, or with options that give no filter, no (or an empty) field
  selection and no metadata, the pipeline is the identity: it returns the records of the
  collection, each as it was and in the same order, and leaves the world as it was.
\<close>

theorem processData_identity:
  assumes "options = None \<or> (\<exists>opts. options = Some opts \<and> filterOptions opts = None
              \<and> (customFields opts = None \<or> customFields opts = Some [])
              \<and> includeMetadata opts \<noteq> Some True)"
  shows "processData p w (JArr C) options = (Inr C, w)"
  using assms
  by (auto simp: processData_def truthy_def Array_isArray_def)

theorem processData_identity_witness:
  "processData example_platform example_world
      (JArr [JObj [(''id'', JNum 1), (''name'', JStr ''Alice'')], JObj [(''id'', JNum 2), (''name'', JStr ''Bob'')]])
      None
    = (Inr [JObj [(''id'', JNum 1), (''name'', JStr ''Alice'')], JObj [(''id'', JNum 2), (''name'', JStr ''Bob'')]],
       example_world)
   \<and> processData example_platform example_world
      (JArr [JObj [(''id'', JNum 1), (''name'', JStr ''Alice'')], JObj [(''id'', JNum 2), (''name'', JStr ''Bob'')]])
      (Some \<lparr>includeMetadata = Some False, customFields = Some [], filterOptions = None\<rparr>)
    = (Inr [JObj [(''id'', JNum 1), (''name'', JStr ''Alice'')], JObj [(''id'', JNum 2), (''name'', JStr ''Bob'')]],
       example_world)"
  using processData_identity [of None example_platform example_world]
    processData_identity [of "Some \<lparr>includeMetadata = Some False, customFields = Some [], filterOptions = None\<rparr>"
       example_platform example_world]
  by simp

text \<open>
  C2. On a collection of records the filter step raises nothing and keeps exactly the
  records that match the filter, in their order: those that have, under every field of
  the filter, a value strictly equal (equal without coercion) to the filter's value for
  that field. So the output is no longer than the input, every kept record \<open>r\<close> satisfies
  \<^verbatim>\<open>r[k] === v\<close> for every pair \<open>(k, v)\<close> of the filter, and a record that lacks a filtered field
  is dropped, whatever value of the data model (any value but undefined) the filter asks
  for.
\<close>

theorem filterData_keeps_matching_records:
  assumes "list_all is_record data"
  shows "\<exists>out. filterData data fo = Inr out
           \<and> out = filter (record_matches fo) data
           \<and> length out \<le> length data
           \<and> (\<forall>r \<in> set out. \<forall>(k, v) \<in> set fo.
                 \<exists>x. get_property r k = Inr (Data x) \<and> strict_equal x v)
           \<and> (\<forall>r \<in> set data. \<forall>(k, v) \<in> set fo.
                 k \<notin> fst ` set (own_properties r) \<and> v \<noteq> JUndefined \<longrightarrow> r \<notin> set out)"
proof -
  let ?out = "filter (record_matches fo) data"
  have 1: "filterData data fo = Inr ?out"
    using assms by (rule filterData_filter)
  have 2: "\<forall>r \<in> set ?out. \<forall>(k, v) \<in> set fo.
             \<exists>x. get_property r k = Inr (Data x) \<and> strict_equal x v"
    by (auto simp: record_matches_iff)
  have 3: "\<forall>r \<in> set data. \<forall>(k, v) \<in> set fo.
             k \<notin> fst ` set (own_properties r) \<and> v \<noteq> JUndefined \<longrightarrow> r \<notin> set ?out"
    using assms missing_field_no_match by (fastforce simp: list_all_iff)
  from 1 2 3 show ?thesis
    by simp
qed

theorem filterData_keeps_matching_records_witness:
  "list_all is_record
     [JObj [(''id'', JNum 1), (''status'', JStr ''active'')],
      JObj [(''id'', JNum 2), (''status'', JStr ''inactive'')],
      JObj [(''id'', JNum 3)],
      JObj [(''id'', JStr ''4''), (''status'', JStr ''active'')]]
   \<and> filterData
        [JObj [(''id'', JNum 1), (''status'', JStr ''active'')],
         JObj [(''id'', JNum 2), (''status'', JStr ''inactive'')],
         JObj [(''id'', JNum 3)],
         JObj [(''id'', JStr ''4''), (''status'', JStr ''active'')]]
        [(''status'', JStr ''active'')]
       = Inr [JObj [(''id'', JNum 1), (''status'', JStr ''active'')],
              JObj [(''id'', JStr ''4''), (''status'', JStr ''active'')]]
   \<and> filterData
        [JObj [(''id'', JNum 1), (''status'', JStr ''active'')],
         JObj [(''id'', JNum 2), (''status'', JStr ''inactive'')],
         JObj [(''id'', JNum 3)],
         JObj [(''id'', JStr ''4''), (''status'', JStr ''active'')]]
        [(''status'', JStr ''active''), (''id'', JNum 4)]
       = Inr []
   \<and> filterData [JObj [(''id'', JNum 1)]] [(''toString'', JNull)] = Inr []"
proof -
  let ?data = "[JObj [(''id'', JNum 1), (''status'', JStr ''active'')],
      JObj [(''id'', JNum 2), (''status'', JStr ''inactive'')],
      JObj [(''id'', JNum 3)],
      JObj [(''id'', JStr ''4''), (''status'', JStr ''active'')]]"
  have recs: "list_all is_record ?data"
    by (simp add: is_record_def)
  have m1: "filter (record_matches [(''status'', JStr ''active'')]) ?data
      = [JObj [(''id'', JNum 1), (''status'', JStr ''active'')],
         JObj [(''id'', JStr ''4''), (''status'', JStr ''active'')]]"
    by code_simp
  have m2: "filter (record_matches [(''status'', JStr ''active''), (''id'', JNum 4)]) ?data = []"
    by code_simp
  have m3: "filter (record_matches [(''toString'', JNull)]) [JObj [(''id'', JNum 1)]] = []"
    by code_simp
  from filterData_keeps_matching_records [OF recs, of "[(''status'', JStr ''active'')]"] m1
  have 1: "filterData ?data [(''status'', JStr ''active'')]
      = Inr [JObj [(''id'', JNum 1), (''status'', JStr ''active'')],
             JObj [(''id'', JStr ''4''), (''status'', JStr ''active'')]]"
    by auto
  from filterData_keeps_matching_records
         [OF recs, of "[(''status'', JStr ''active''), (''id'', JNum 4)]"] m2
  have 2: "filterData ?data [(''status'', JStr ''active''), (''id'', JNum 4)] = Inr []"
    by auto
  from filterData_keeps_matching_records
         [of "[JObj [(''id'', JNum 1)]]" "[(''toString'', JNull)]"] m3
  have 3: "filterData [JObj [(''id'', JNum 1)]] [(''toString'', JNull)] = Inr []"
    by (auto simp: is_record_def)
  from recs 1 2 3 show ?thesis
    by simp
qed




text \<open>
  C4. \<open>addMetadata\<close> reads the clock once and maps every item to an object that has the
  item's own fields and the two reserved fields \<open>_exportedAt\<close> and \<open>_exportVersion\<close>: the
  first holds the one timestamp read (the same for every record), the second the text
  \<open>1.0.0\<close>, whatever the item had under these names; every other field keeps its value.
  When \<open>includeMetadata\<close> is set, every record that \<open>processData\<close> returns has the two
  fields, with the timestamp of the call's single clock reading.
\<close>

theorem addMetadata_stamps_every_record:
  "\<exists>out w'. addMetadata p w data = (out, w') \<and> ticks w' = Suc (ticks w) \<and> length out = length data
     \<and> (\<forall>i < length data. \<exists>res. out ! i = JObj res
           \<and> map_of res ''_exportedAt'' = Some (JStr (clock p (ticks w)))
           \<and> map_of res ''_exportVersion'' = Some (JStr ''1.0.0'')
           \<and> fst ` set res
               = fst ` set (own_properties (data ! i)) \<union> {''_exportedAt'', ''_exportVersion''}
           \<and> (\<forall>k. k \<notin> {''_exportedAt'', ''_exportVersion''} \<longrightarrow>
                 map_of res k = map_of (own_properties (data ! i)) k))
     \<and> (\<forall>opts C out' w''.
           includeMetadata opts = Some True \<and> processData p w (JArr C) (Some opts) = (Inr out', w'')
           \<longrightarrow> (\<forall>r \<in> set out'. \<exists>res. r = JObj res
                   \<and> map_of res ''_exportedAt'' = Some (JStr (clock p (ticks w)))
                   \<and> map_of res ''_exportVersion'' = Some (JStr ''1.0.0'')))"
proof -
  let ?ts = "clock p (ticks w)"
  have 1: "addMetadata p w data = (map (stamp ?ts) data, w\<lparr>ticks := Suc (ticks w)\<rparr>)"
    by (simp add: addMetadata_def Date_now_toISOString_def)
  have 2: "\<forall>i < length data. \<exists>res. map (stamp ?ts) data ! i = JObj res
           \<and> map_of res ''_exportedAt'' = Some (JStr ?ts)
           \<and> map_of res ''_exportVersion'' = Some (JStr ''1.0.0'')
           \<and> fst ` set res
               = fst ` set (own_properties (data ! i)) \<union> {''_exportedAt'', ''_exportVersion''}
           \<and> (\<forall>k. k \<notin> {''_exportedAt'', ''_exportVersion''} \<longrightarrow>
                 map_of res k = map_of (own_properties (data ! i)) k)"
    using stamp_fields [of ?ts] by simp
  have 3: "\<forall>r \<in> set out'. \<exists>res. r = JObj res
                   \<and> map_of res ''_exportedAt'' = Some (JStr ?ts)
                   \<and> map_of res ''_exportVersion'' = Some (JStr ''1.0.0'')"
    if "includeMetadata opts = Some True" "processData p w (JArr C) (Some opts) = (Inr out', w'')"
    for opts C out' w''
  proof -
    from processData_metadata [OF that] obtain pre where "out' = map (stamp ?ts) pre"
      by blast
    then show ?thesis
      using stamp_fields [of ?ts] by fastforce
  qed
  show ?thesis
  proof (intro exI conjI)
    show "addMetadata p w data = (map (stamp ?ts) data, w\<lparr>ticks := Suc (ticks w)\<rparr>)"
      by (rule 1)
    show "ticks (w\<lparr>ticks := Suc (ticks w)\<rparr>) = Suc (ticks w)"
      by simp
    show "length (map (stamp ?ts) data) = length data"
      by simp
    show "\<forall>i < length data. \<exists>res. map (stamp ?ts) data ! i = JObj res
           \<and> map_of res ''_exportedAt'' = Some (JStr ?ts)
           \<and> map_of res ''_exportVersion'' = Some (JStr ''1.0.0'')
           \<and> fst ` set res
               = fst ` set (own_properties (data ! i)) \<union> {''_exportedAt'', ''_exportVersion''}
           \<and> (\<forall>k. k \<notin> {''_exportedAt'', ''_exportVersion''} \<longrightarrow>
                 map_of res k = map_of (own_properties (data ! i)) k)"
      by (rule 2)
    show "\<forall>opts C out' w''.
           includeMetadata opts = Some True \<and> processData p w (JArr C) (Some opts) = (Inr out', w'')
           \<longrightarrow> (\<forall>r \<in> set out'. \<exists>res. r = JObj res
                   \<and> map_of res ''_exportedAt'' = Some (JStr ?ts)
                   \<and> map_of res ''_exportVersion'' = Some (JStr ''1.0.0''))"
      using 3 by blast
  qed
qed

theorem addMetadata_stamps_every_record_witness:
  "addMetadata example_platform example_world
     [JObj [(''id'', JNum 1), (''_exportedAt'', JStr ''yesterday'')], JObj [(''id'', JNum 2)]]
   = ([JObj [(''id'', JNum 1), (''_exportedAt'', JStr ''2024-01-01T00:00:00.000Z''),
             (''_exportVersion'', JStr ''1.0.0'')],
       JObj [(''id'', JNum 2), (''_exportedAt'', JStr ''2024-01-01T00:00:00.000Z''),
             (''_exportVersion'', JStr ''1.0.0'')]],
      example_world\<lparr>ticks := 1\<rparr>)
   \<and> fst (processData example_platform example_world
        (JArr [JObj [(''id'', JNum 1)]])
        (Some \<lparr>includeMetadata = Some True, customFields = None, filterOptions = None\<rparr>))
     = Inr [JObj [(''id'', JNum 1), (''_exportedAt'', JStr ''2024-01-01T00:00:00.000Z''),
             (''_exportVersion'', JStr ''1.0.0'')]]"
proof -
  have "\<exists>out w'. addMetadata example_platform example_world
          [JObj [(''id'', JNum 1), (''_exportedAt'', JStr ''yesterday'')], JObj [(''id'', JNum 2)]]
            = (out, w') \<and> ticks w' = Suc (ticks example_world) \<and> length out = 2"
    using addMetadata_stamps_every_record [of example_platform example_world
       "[JObj [(''id'', JNum 1), (''_exportedAt'', JStr ''yesterday'')], JObj [(''id'', JNum 2)]]"]
    by auto
  then show ?thesis
    by (simp add: addMetadata_def Date_now_toISOString_def example_platform_def example_world_def
        stamp_def own_properties_def set_property_def array_index_def is_digit_def
        string_of_nat_def Number_toString_def decimal.simps digit_char_def processData_def truthy_def
        Array_isArray_def)
qed

section \<open>The claims about the exporters\<close>

text \<open>
  C1, as amended. Neither exporter raises: every fault of the \<^verbatim>\<open>try\<close> block is caught, logged
  as an error and reported by the result false. So the result is false with a warning when
  the transformed collection is empty, false with an error entry when a fault occurs (a
  failing \<^verbatim>\<open>mkdirSync\<close> or \<^verbatim>\<open>writeFileSync\<close>, or a TypeError on the way), and true only when the
  transformed collection was not empty.
\<close>

theorem exporters_report_faults_as_false:
  "(\<exists>b. fst (CSVExporter_export p w data outputPath options) = Inr b)
   \<and> (\<exists>b. fst (JSONExporter_export p w data outputPath options) = Inr b)
   \<and> (\<forall>w1. processData p w data options = (Inr [], w1) \<longrightarrow>
         CSVExporter_export p w data outputPath options
           = (Inr False, logger (LogWarn ''No data to export to CSV'') w1)
         \<and> JSONExporter_export p w data outputPath options
           = (Inr False, logger (LogWarn ''No data to export to JSON'') w1))
   \<and> (\<forall>e w'. CSVExporter_try p w data outputPath options = (Inl e, w') \<longrightarrow>
         CSVExporter_export p w data outputPath options
           = (Inr False, logger (LogErrorOf ''Error exporting to CSV: '' e) w'))
   \<and> (\<forall>e w'. JSONExporter_try p w data outputPath options = (Inl e, w') \<longrightarrow>
         JSONExporter_export p w data outputPath options
           = (Inr False, logger (LogErrorOf ''Error exporting to JSON: '' e) w'))
   \<and> (\<forall>r rs w1 w2 msg.
         processData p w data options = (Inr (r # rs), w1)
         \<and> ensure_directory p w1 outputPath = (Inr (), w2)
         \<and> write_fault p outputPath = Some msg \<longrightarrow>
         (list_all is_record (r # rs) \<longrightarrow>
            CSVExporter_export p w data outputPath options
              = (Inr False, logger (LogErrorOf ''Error exporting to CSV: '' (IOError msg)) w2))
         \<and> JSONExporter_export p w data outputPath options
             = (Inr False, logger (LogErrorOf ''Error exporting to JSON: '' (IOError msg))
                  (w2\<lparr>ticks := Suc (ticks w2)\<rparr>)))
   \<and> (\<forall>r rs w1 msg.
         processData p w data options = (Inr (r # rs), w1)
         \<and> \<not> fs_existsSync w1 (path_dirname p outputPath)
         \<and> mkdir_fault p (path_dirname p outputPath) = Some msg \<longrightarrow>
         CSVExporter_export p w data outputPath options
           = (Inr False, logger (LogErrorOf ''Error exporting to CSV: '' (IOError msg)) w1)
         \<and> JSONExporter_export p w data outputPath options
           = (Inr False, logger (LogErrorOf ''Error exporting to JSON: '' (IOError msg)) w1))
   \<and> (fst (CSVExporter_export p w data outputPath options) = Inr True \<longrightarrow>
         (\<exists>r rs. fst (processData p w data options) = Inr (r # rs)))
   \<and> (fst (JSONExporter_export p w data outputPath options) = Inr True \<longrightarrow>
         (\<exists>r rs. fst (processData p w data options) = Inr (r # rs)))"
proof (intro conjI allI)
  show "\<exists>b. fst (CSVExporter_export p w data outputPath options) = Inr b"
    by (rule CSVExporter_export_returns)
  show "\<exists>b. fst (JSONExporter_export p w data outputPath options) = Inr b"
    by (rule JSONExporter_export_returns)
  show "processData p w data options = (Inr [], w1) \<longrightarrow>
         CSVExporter_export p w data outputPath options
           = (Inr False, logger (LogWarn ''No data to export to CSV'') w1)
         \<and> JSONExporter_export p w data outputPath options
           = (Inr False, logger (LogWarn ''No data to export to JSON'') w1)" for w1
    using exporters_nothing_to_export [of p w "data" options w1 outputPath] by blast
  show "CSVExporter_try p w data outputPath options = (Inl e, w') \<longrightarrow>
         CSVExporter_export p w data outputPath options
           = (Inr False, logger (LogErrorOf ''Error exporting to CSV: '' e) w')" for e w'
    by (simp add: CSVExporter_export_def)
  show "JSONExporter_try p w data outputPath options = (Inl e, w') \<longrightarrow>
         JSONExporter_export p w data outputPath options
           = (Inr False, logger (LogErrorOf ''Error exporting to JSON: '' e) w')" for e w'
    by (simp add: JSONExporter_export_def)
  show "processData p w data options = (Inr (r # rs), w1)
         \<and> ensure_directory p w1 outputPath = (Inr (), w2)
         \<and> write_fault p outputPath = Some msg \<longrightarrow>
         (list_all is_record (r # rs) \<longrightarrow>
            CSVExporter_export p w data outputPath options
              = (Inr False, logger (LogErrorOf ''Error exporting to CSV: '' (IOError msg)) w2))
         \<and> JSONExporter_export p w data outputPath options
             = (Inr False, logger (LogErrorOf ''Error exporting to JSON: '' (IOError msg))
                  (w2\<lparr>ticks := Suc (ticks w2)\<rparr>))" for r rs w1 w2 msg
    using exporters_write_fault [of p w "data" options r rs w1 outputPath w2 msg] by blast
  show "processData p w data options = (Inr (r # rs), w1)
         \<and> \<not> fs_existsSync w1 (path_dirname p outputPath)
         \<and> mkdir_fault p (path_dirname p outputPath) = Some msg \<longrightarrow>
         CSVExporter_export p w data outputPath options
           = (Inr False, logger (LogErrorOf ''Error exporting to CSV: '' (IOError msg)) w1)
         \<and> JSONExporter_export p w data outputPath options
           = (Inr False, logger (LogErrorOf ''Error exporting to JSON: '' (IOError msg)) w1)"
    for r rs w1 msg
    using exporters_mkdir_fault [of p w "data" options r rs w1 outputPath msg] by blast
  show "fst (CSVExporter_export p w data outputPath options) = Inr True \<longrightarrow>
         (\<exists>r rs. fst (processData p w data options) = Inr (r # rs))"
    by (rule exporters_true_only_with_records)
  show "fst (JSONExporter_export p w data outputPath options) = Inr True \<longrightarrow>
         (\<exists>r rs. fst (processData p w data options) = Inr (r # rs))"
    by (rule exporters_true_only_with_records)
qed

theorem exporters_report_faults_as_false_witness:
  "CSVExporter_export readonly_platform example_world (JArr example_records) ''/tmp/out.csv'' None
     = (Inr False,
        logger (LogErrorOf ''Error exporting to CSV: '' (IOError ''EACCES: permission denied''))
          example_world)
   \<and> JSONExporter_export readonly_platform example_world (JArr example_records) ''/tmp/out.json'' None
     = (Inr False,
        logger (LogErrorOf ''Error exporting to JSON: '' (IOError ''EACCES: permission denied''))
          (example_world\<lparr>ticks := Suc (ticks example_world)\<rparr>))
   \<and> CSVExporter_export example_platform example_world (JArr []) ''/tmp/out.csv'' None
     = (Inr False, logger (LogWarn ''No data to export to CSV'') example_world)
   \<and> JSONExporter_export example_platform example_world (JArr []) ''/tmp/out.json'' None
     = (Inr False, logger (LogWarn ''No data to export to JSON'') example_world)
   \<and> CSVExporter_export example_platform example_world (JArr [JNull]) ''/tmp/out.csv'' None
     = (Inr False, logger (LogErrorOf ''Error exporting to CSV: '' TypeError) example_world)
   \<and> JSONExporter_export (example_platform\<lparr>mkdir_fault := (\<lambda>d. Some ''EROFS: read-only file system'')\<rparr>)
        example_world (JArr example_records) ''/data/out.json'' None
     = (Inr False,
        logger (LogErrorOf ''Error exporting to JSON: '' (IOError ''EROFS: read-only file system''))
          example_world)"
proof -
  let ?nodir = "example_platform\<lparr>mkdir_fault := (\<lambda>d. Some ''EROFS: read-only file system'')\<rparr>"
  have pd: "processData p example_world (JArr example_records) None
         = (Inr (JObj [(''id'', JNum 1), (''name'', JStr ''Alice'')]
                 # [JObj [(''id'', JNum 2), (''name'', JStr ''Bob'')]]), example_world)" for p
    by (simp add: processData_no_options example_records_def)
  have recs: "list_all is_record (JObj [(''id'', JNum 1), (''name'', JStr ''Alice'')]
                 # [JObj [(''id'', JNum 2), (''name'', JStr ''Bob'')]])"
    by (simp add: is_record_def)
  have dir: "ensure_directory readonly_platform example_world path = (Inr (), example_world)"
    if "path = ''/tmp/out.csv'' \<or> path = ''/tmp/out.json''" for path
    using that
    by (auto simp: ensure_directory_def readonly_platform_def example_platform_def example_world_def
        posix_dirname_def fs_existsSync_def)
  have fault: "write_fault readonly_platform path = Some ''EACCES: permission denied''" for path
    by (simp add: readonly_platform_def)
  have empty: "processData example_platform example_world (JArr []) None = (Inr [], example_world)"
    by (simp add: processData_no_options)
  have null: "CSVExporter_try example_platform example_world (JArr [JNull]) ''/tmp/out.csv'' None
         = (Inl TypeError, example_world)"
    by (simp add: CSVExporter_try_def processData_no_options ensure_directory_def
        example_platform_def example_world_def posix_dirname_def fs_existsSync_def Object_keys_def)
  have nodir: "\<not> fs_existsSync example_world (path_dirname ?nodir ''/data/out.json'')"
      "mkdir_fault ?nodir (path_dirname ?nodir ''/data/out.json'') = Some ''EROFS: read-only file system''"
    by (simp_all add: example_platform_def example_world_def posix_dirname_def fs_existsSync_def)
  from exporters_report_faults_as_false
         [of readonly_platform example_world "JArr example_records" "''/tmp/out.csv''" None]
       pd recs dir fault
  have 1: "CSVExporter_export readonly_platform example_world (JArr example_records) ''/tmp/out.csv'' None
     = (Inr False,
        logger (LogErrorOf ''Error exporting to CSV: '' (IOError ''EACCES: permission denied''))
          example_world)"
    by blast
  from exporters_report_faults_as_false
         [of readonly_platform example_world "JArr example_records" "''/tmp/out.json''" None]
       pd dir fault
  have 2: "JSONExporter_export readonly_platform example_world (JArr example_records) ''/tmp/out.json'' None
     = (Inr False,
        logger (LogErrorOf ''Error exporting to JSON: '' (IOError ''EACCES: permission denied''))
          (example_world\<lparr>ticks := Suc (ticks example_world)\<rparr>))"
    by blast
  from exporters_report_faults_as_false
         [of example_platform example_world "JArr []" "''/tmp/out.csv''" None] empty
  have 3: "CSVExporter_export example_platform example_world (JArr []) ''/tmp/out.csv'' None
     = (Inr False, logger (LogWarn ''No data to export to CSV'') example_world)"
    by blast
  from exporters_report_faults_as_false
         [of example_platform example_world "JArr []" "''/tmp/out.json''" None] empty
  have 4: "JSONExporter_export example_platform example_world (JArr []) ''/tmp/out.json'' None
     = (Inr False, logger (LogWarn ''No data to export to JSON'') example_world)"
    by blast
  from exporters_report_faults_as_false
         [of example_platform example_world "JArr [JNull]" "''/tmp/out.csv''" None] null
  have 5: "CSVExporter_export example_platform example_world (JArr [JNull]) ''/tmp/out.csv'' None
     = (Inr False, logger (LogErrorOf ''Error exporting to CSV: '' TypeError) example_world)"
    by blast
  from exporters_report_faults_as_false
         [of ?nodir example_world "JArr example_records" "''/data/out.json''" None] pd nodir
  have 6: "JSONExporter_export ?nodir example_world (JArr example_records) ''/data/out.json'' None
     = (Inr False,
        logger (LogErrorOf ''Error exporting to JSON: '' (IOError ''EROFS: read-only file system''))
          example_world)"
    by blast
  from 1 2 3 4 5 6 show ?thesis
    by simp
qed

text \<open>
  The claim as stated returns false exactly when the transformed collection is empty and
  raises on an I/O fault. On a platform where the write fails, both exporters return false
  (they raise nothing) although the transformed collection is not empty.
\<close>

theorem exporters_fault_counterexample:
  "fst (processData readonly_platform example_world (JArr example_records) None) = Inr example_records
   \<and> example_records \<noteq> []
   \<and> write_fault readonly_platform ''/tmp/out.csv'' = Some ''EACCES: permission denied''
   \<and> fst (CSVExporter_export readonly_platform example_world (JArr example_records) ''/tmp/out.csv'' None)
       = Inr False
   \<and> write_fault readonly_platform ''/tmp/out.json'' = Some ''EACCES: permission denied''
   \<and> fst (JSONExporter_export readonly_platform example_world (JArr example_records) ''/tmp/out.json'' None)
       = Inr False"
  by code_simp




text \<open>
  C9. When the transformed collection is not empty, and neither the directory nor the write
  fails, \<open>JSONExporter.export\<close> returns true and writes, indented by two spaces, the
  envelope: a \<open>metadata\<close> object with the time of export (one more clock reading), the
  number of records of the transformed collection and the version \<open>1.0.0\<close>, then \<open>data\<close>,
  the array of the transformed records. Every object is written with its members in the
  order of its own fields (those whose value is undefined left out).
\<close>

theorem JSONExporter_export_writes_envelope:
  assumes "processData p w data options = (Inr processedData, w1)"
    and "processedData \<noteq> []"
    and "ensure_directory p w1 outputPath = (Inr (), w2)"
    and "write_fault p outputPath = None"
  shows "\<exists>content.
     JSONExporter_export p w data outputPath options
       = (Inr True,
          logger (LogInfo (''Successfully exported '' @ string_of_nat (length processedData)
                           @ '' records to JSON: '' @ outputPath))
            (w2\<lparr>ticks := Suc (ticks w2), fs_files := (fs_files w2)(outputPath \<mapsto> content)\<rparr>))
     \<and> JSON_stringify ''  ''
          (JObj [(''metadata'',
                  JObj [(''exportedAt'', JStr (clock p (ticks w2))),
                        (''recordCount'', JNum (int (length processedData))),
                        (''version'', JStr ''1.0.0'')]),
                 (''data'', JArr processedData)])
         = Some content
     \<and> content
         = ''{'' @ [newline]
         @ ''  '' @ QuoteJSONString ''metadata'' @ '': {'' @ [newline]
         @ ''    '' @ QuoteJSONString ''exportedAt'' @ '': '' @ QuoteJSONString (clock p (ticks w2))
           @ '','' @ [newline]
         @ ''    '' @ QuoteJSONString ''recordCount'' @ '': '' @ string_of_nat (length processedData)
           @ '','' @ [newline]
         @ ''    '' @ QuoteJSONString ''version'' @ '': '' @ QuoteJSONString ''1.0.0'' @ [newline]
         @ ''  },'' @ [newline]
         @ ''  '' @ QuoteJSONString ''data'' @ '': ['' @ [newline]
         @ ''    '' @ js_join ('','' @ [newline] @ ''    '')
                       (map (SerializeJSONProperty ''  '' ''    '') processedData) @ [newline]
         @ ''  ]'' @ [newline]
         @ ''}''
     \<and> (\<forall>kvs ind.
           SerializeJSONProperty ''  '' ind (JObj kvs)
             = json_wrap ''{'' ''}'' ''  '' ind
                 (map (\<lambda>(k, v). QuoteJSONString k @ '': '' @ SerializeJSONProperty ''  '' (ind @ ''  '') v)
                    (filter (\<lambda>(k, v). v \<noteq> JUndefined) kvs)))"
proof -
  let ?content = "''{'' @ [newline]
         @ ''  '' @ QuoteJSONString ''metadata'' @ '': {'' @ [newline]
         @ ''    '' @ QuoteJSONString ''exportedAt'' @ '': '' @ QuoteJSONString (clock p (ticks w2))
           @ '','' @ [newline]
         @ ''    '' @ QuoteJSONString ''recordCount'' @ '': '' @ string_of_nat (length processedData)
           @ '','' @ [newline]
         @ ''    '' @ QuoteJSONString ''version'' @ '': '' @ QuoteJSONString ''1.0.0'' @ [newline]
         @ ''  },'' @ [newline]
         @ ''  '' @ QuoteJSONString ''data'' @ '': ['' @ [newline]
         @ ''    '' @ js_join ('','' @ [newline] @ ''    '')
                       (map (SerializeJSONProperty ''  '' ''    '') processedData) @ [newline]
         @ ''  ]'' @ [newline]
         @ ''}''"
  have shape: "JSON_stringify ''  '' (exportData (clock p (ticks w2)) processedData) = Some ?content"
    using assms(2) by (rule exportData_text)
  have run: "JSONExporter_export p w data outputPath options
       = (Inr True,
          logger (LogInfo (''Successfully exported '' @ string_of_nat (length processedData)
                           @ '' records to JSON: '' @ outputPath))
            (w2\<lparr>ticks := Suc (ticks w2), fs_files := (fs_files w2)(outputPath \<mapsto> ?content)\<rparr>))"
    using JSONExporter_try_success [OF assms shape] by (simp add: JSONExporter_export_def)
  have members: "\<forall>kvs ind.
           SerializeJSONProperty ''  '' ind (JObj kvs)
             = json_wrap ''{'' ''}'' ''  '' ind
                 (map (\<lambda>(k, v). QuoteJSONString k @ '': '' @ SerializeJSONProperty ''  '' (ind @ ''  '') v)
                    (filter (\<lambda>(k, v). v \<noteq> JUndefined) kvs))"
    by (simp add: SerializeJSONObject_map)
  from shape have shape': "JSON_stringify ''  ''
          (JObj [(''metadata'',
                  JObj [(''exportedAt'', JStr (clock p (ticks w2))),
                        (''recordCount'', JNum (int (length processedData))),
                        (''version'', JStr ''1.0.0'')]),
                 (''data'', JArr processedData)])
         = Some ?content"
    by (simp only: exportData_def)
  from run shape' members show ?thesis
    by blast
qed

theorem JSONExporter_export_writes_envelope_witness:
  "fst (JSONExporter_export example_platform example_world (JArr example_records)
          ''/tmp/exports/out.json'' None)
     = Inr True
   \<and> fs_files
        (snd (JSONExporter_export example_platform example_world (JArr example_records)
                ''/tmp/exports/out.json'' None))
        ''/tmp/exports/out.json''
     = Some (js_join [newline]
         [''{'',
          ''  '' @ [double_quote] @ ''metadata'' @ [double_quote] @ '': {'',
          ''    '' @ [double_quote] @ ''exportedAt'' @ [double_quote] @ '': ''
             @ [double_quote] @ ''2024-01-01T00:00:00.000Z'' @ [double_quote] @ '','',
          ''    '' @ [double_quote] @ ''recordCount'' @ [double_quote] @ '': 2,'',
          ''    '' @ [double_quote] @ ''version'' @ [double_quote] @ '': ''
             @ [double_quote] @ ''1.0.0'' @ [double_quote],
          ''  },'',
          ''  '' @ [double_quote] @ ''data'' @ [double_quote] @ '': ['',
          ''    {'',
          ''      '' @ [double_quote] @ ''id'' @ [double_quote] @ '': 1,'',
          ''      '' @ [double_quote] @ ''name'' @ [double_quote] @ '': ''
             @ [double_quote] @ ''Alice'' @ [double_quote],
          ''    },'',
          ''    {'',
          ''      '' @ [double_quote] @ ''id'' @ [double_quote] @ '': 2,'',
          ''      '' @ [double_quote] @ ''name'' @ [double_quote] @ '': ''
             @ [double_quote] @ ''Bob'' @ [double_quote],
          ''    }'',
          ''  ]'',
          ''}''])"
proof -
  have 1: "processData example_platform example_world (JArr example_records) None
         = (Inr example_records, example_world)"
    by (simp add: processData_no_options)
  have 2: "example_records \<noteq> []"
    by (simp add: example_records_def)
  have 3: "ensure_directory example_platform example_world ''/tmp/exports/out.json''
         = (Inr (), example_world\<lparr>fs_dirs := insert ''/tmp/exports'' (fs_dirs example_world)\<rparr>)"
    by (simp add: ensure_directory_def example_platform_def example_world_def posix_dirname_def
        fs_existsSync_def fs_mkdirSync_def)
  have 4: "write_fault example_platform ''/tmp/exports/out.json'' = None"
    by (simp add: example_platform_def)
  from JSONExporter_export_writes_envelope [OF 1 2 3 4]
  have "fst (JSONExporter_export example_platform example_world (JArr example_records)
          ''/tmp/exports/out.json'' None) = Inr True"
    by auto
  moreover have "fs_files
        (snd (JSONExporter_export example_platform example_world (JArr example_records)
                ''/tmp/exports/out.json'' None))
        ''/tmp/exports/out.json''
     = Some (js_join [newline]
         [''{'',
          ''  '' @ [double_quote] @ ''metadata'' @ [double_quote] @ '': {'',
          ''    '' @ [double_quote] @ ''exportedAt'' @ [double_quote] @ '': ''
             @ [double_quote] @ ''2024-01-01T00:00:00.000Z'' @ [double_quote] @ '','',
          ''    '' @ [double_quote] @ ''recordCount'' @ [double_quote] @ '': 2,'',
          ''    '' @ [double_quote] @ ''version'' @ [double_quote] @ '': ''
             @ [double_quote] @ ''1.0.0'' @ [double_quote],
          ''  },'',
          ''  '' @ [double_quote] @ ''data'' @ [double_quote] @ '': ['',
          ''    {'',
          ''      '' @ [double_quote] @ ''id'' @ [double_quote] @ '': 1,'',
          ''      '' @ [double_quote] @ ''name'' @ [double_quote] @ '': ''
             @ [double_quote] @ ''Alice'' @ [double_quote],
          ''    },'',
          ''    {'',
          ''      '' @ [double_quote] @ ''id'' @ [double_quote] @ '': 2,'',
          ''      '' @ [double_quote] @ ''name'' @ [double_quote] @ '': ''
             @ [double_quote] @ ''Bob'' @ [double_quote],
          ''    }'',
          ''  ]'',
          ''}''])"
    by code_simp
  ultimately show ?thesis
    by simp
qed

section \<open>The claims about the manager\<close>

text \<open>
  C6. \<open>ExportManager.export\<close> never raises. For data that is not an array (null and
  undefined among it) or is empty, it returns false and only logs
  \<open>No data to export\<close>: no exporter has run. For a format without a registered exporter it
  returns false and logs the unsupported format. Otherwise it returns what the exporter
  returns, and false with a logged \<open>Export failed\<close> entry when the exporter throws.
\<close>

theorem ExportManager_export_dispatch:
  "(\<exists>b. fst (ExportManager_export p m w request) = Inr b)
   \<and> (\<not> Array_isArray (req_data request) \<or> req_data request = JArr [] \<longrightarrow>
        ExportManager_export p m w request
          = (Inr False, logger (LogError ''No data to export'') w))
   \<and> (\<forall>x xs. req_data request = JArr (x # xs) \<longrightarrow>
        (exporters m (req_format request) = None \<longrightarrow>
           ExportManager_export p m w request
             = (Inr False,
                logger (LogError (''Unsupported export format: '' @ req_format request)) w))
        \<and> (\<forall>ex b w'.
              exporters m (req_format request) = Some ex
              \<and> ex p w (req_data request) (req_outputPath request) (req_options request)
                  = (Inr b, w')
              \<longrightarrow> ExportManager_export p m w request = (Inr b, w'))
        \<and> (\<forall>ex e w'.
              exporters m (req_format request) = Some ex
              \<and> ex p w (req_data request) (req_outputPath request) (req_options request)
                  = (Inl e, w')
              \<longrightarrow> ExportManager_export p m w request
                    = (Inr False, logger (LogErrorOf ''Export failed: '' e) w')))"
proof (intro conjI allI impI)
  show "\<exists>b. fst (ExportManager_export p m w request) = Inr b"
    by (rule ExportManager_export_returns)
next
  assume "\<not> Array_isArray (req_data request) \<or> req_data request = JArr []"
  then show "ExportManager_export p m w request
          = (Inr False, logger (LogError ''No data to export'') w)"
    by (auto simp: ExportManager_export_def)
next
  fix x xs
  assume "req_data request = JArr (x # xs)" "exporters m (req_format request) = None"
  then show "ExportManager_export p m w request
             = (Inr False,
                logger (LogError (''Unsupported export format: '' @ req_format request)) w)"
    by (simp add: ExportManager_export_def truthy_def Array_isArray_def)
next
  fix x xs ex b w'
  assume "req_data request = JArr (x # xs)"
    and "exporters m (req_format request) = Some ex
         \<and> ex p w (req_data request) (req_outputPath request) (req_options request) = (Inr b, w')"
  then show "ExportManager_export p m w request = (Inr b, w')"
    by (simp add: ExportManager_export_def truthy_def Array_isArray_def)
next
  fix x xs ex e w'
  assume "req_data request = JArr (x # xs)"
    and "exporters m (req_format request) = Some ex
         \<and> ex p w (req_data request) (req_outputPath request) (req_options request) = (Inl e, w')"
  then show "ExportManager_export p m w request
                    = (Inr False, logger (LogErrorOf ''Export failed: '' e) w')"
    by (simp add: ExportManager_export_def truthy_def Array_isArray_def)
qed

theorem ExportManager_export_dispatch_witness:
  "ExportManager_export example_platform (new_ExportManager failing_exporter) example_world
     \<lparr>req_data = JArr [], req_format = ''csv'', req_outputPath = ''/tmp/out.csv'', req_options = None\<rparr>
     = (Inr False, logger (LogError ''No data to export'') example_world)
   \<and> ExportManager_export example_platform (new_ExportManager failing_exporter) example_world
     \<lparr>req_data = JNull, req_format = ''csv'', req_outputPath = ''/tmp/out.csv'', req_options = None\<rparr>
     = (Inr False, logger (LogError ''No data to export'') example_world)
   \<and> ExportManager_export example_platform (new_ExportManager failing_exporter) example_world
     \<lparr>req_data = JArr example_records, req_format = ''xml'', req_outputPath = ''/tmp/out.xml'',
      req_options = None\<rparr>
     = (Inr False, logger (LogError ''Unsupported export format: xml'') example_world)
   \<and> ExportManager_export example_platform (new_ExportManager failing_exporter) example_world
     \<lparr>req_data = JArr example_records, req_format = ''pdf'', req_outputPath = ''/tmp/out.pdf'',
      req_options = None\<rparr>
     = (Inr False, logger (LogErrorOf ''Export failed: '' (IOError ''stream closed'')) example_world)
   \<and> fst (ExportManager_export example_platform (new_ExportManager failing_exporter) example_world
     \<lparr>req_data = JArr example_records, req_format = ''csv'', req_outputPath = ''/tmp/out.csv'',
      req_options = None\<rparr>)
     = Inr True"
proof -
  let ?m = "new_ExportManager failing_exporter"
  let ?r0 = "\<lparr>req_data = JNull, req_format = ''csv'', req_outputPath = ''/tmp/out.csv'',
              req_options = None\<rparr>"
  let ?r1 = "\<lparr>req_data = JArr [], req_format = ''csv'', req_outputPath = ''/tmp/out.csv'',
              req_options = None\<rparr>"
  let ?r2 = "\<lparr>req_data = JArr example_records, req_format = ''xml'',
              req_outputPath = ''/tmp/out.xml'', req_options = None\<rparr>"
  let ?r3 = "\<lparr>req_data = JArr example_records, req_format = ''pdf'',
              req_outputPath = ''/tmp/out.pdf'', req_options = None\<rparr>"
  let ?r4 = "\<lparr>req_data = JArr example_records, req_format = ''csv'',
              req_outputPath = ''/tmp/out.csv'', req_options = None\<rparr>"
  have m: "exporters ?m ''xml'' = None" "exporters ?m ''pdf'' = Some failing_exporter"
      "exporters ?m ''csv'' = Some CSVExporter_export"
    by (simp_all add: exporters_new_ExportManager ExportFormat_CSV_def ExportFormat_JSON_def
        ExportFormat_PDF_def)
  have f: "failing_exporter example_platform example_world (JArr example_records) ''/tmp/out.pdf'' None
            = (Inl (IOError ''stream closed''), example_world)"
    by (simp add: failing_exporter_def)
  have "fst (CSVExporter_export example_platform example_world (JArr example_records)
               ''/tmp/out.csv'' None) = Inr True"
    by code_simp
  then obtain w' where c: "CSVExporter_export example_platform example_world (JArr example_records)
               ''/tmp/out.csv'' None = (Inr True, w')"
    by (cases "CSVExporter_export example_platform example_world (JArr example_records)
               ''/tmp/out.csv'' None") auto
  have 0: "ExportManager_export example_platform ?m example_world ?r0
     = (Inr False, logger (LogError ''No data to export'') example_world)"
    using ExportManager_export_dispatch [of example_platform ?m example_world ?r0]
    by (simp add: Array_isArray_def)
  have 1: "ExportManager_export example_platform ?m example_world ?r1
     = (Inr False, logger (LogError ''No data to export'') example_world)"
    using ExportManager_export_dispatch [of example_platform ?m example_world ?r1] by simp
  have 2: "ExportManager_export example_platform ?m example_world ?r2
     = (Inr False, logger (LogError ''Unsupported export format: xml'') example_world)"
    using ExportManager_export_dispatch [of example_platform ?m example_world ?r2] m(1)
    by (simp add: example_records_def)
  have 3: "ExportManager_export example_platform ?m example_world ?r3
     = (Inr False, logger (LogErrorOf ''Export failed: '' (IOError ''stream closed'')) example_world)"
    using ExportManager_export_dispatch [of example_platform ?m example_world ?r3] m(2) f
    by (simp add: example_records_def)
  have 4: "fst (ExportManager_export example_platform ?m example_world ?r4) = Inr True"
    using ExportManager_export_dispatch [of example_platform ?m example_world ?r4] m(3) c
    by (auto simp: example_records_def)
  from 0 1 2 3 4 show ?thesis
    by simp
qed

text \<open>
  C7. \<open>exportMultiple\<close> never raises. It calls \<open>export\<close> once for every requested kind, in
  the order given, each call in the world the previous one left, with the target
  \<open>basePath.kind\<close>; whatever a call returns, the next kinds are still attempted. The
  result has exactly one entry for every requested kind, holding the outcome of the (last)
  call for that kind.
\<close>

theorem exportMultiple_fans_out:
  "\<exists>results outcomes ws.
     exportMultiple p m w data basePath kinds options = (Inr results, last (w # ws))
     \<and> length outcomes = length kinds \<and> length ws = length kinds
     \<and> (\<forall>i < length kinds.
           ExportManager_export p m ((w # ws) ! i)
             \<lparr>req_data = data, req_format = kinds ! i,
              req_outputPath = basePath @ ''.'' @ kinds ! i, req_options = options\<rparr>
             = (Inr (outcomes ! i), ws ! i))
     \<and> fst ` set results = set kinds
     \<and> distinct (map fst results)
     \<and> map_of results = map_of (rev (zip kinds outcomes))
     \<and> (distinct kinds \<longrightarrow> (\<forall>i < length kinds. map_of results (kinds ! i) = Some (outcomes ! i)))"
proof -
  from exportMultiple_loop_trace [of p m "data" basePath options kinds "[]" w]
  obtain outcomes ws where
    run: "exportMultiple_loop p m data basePath options kinds [] w
       = (Inr (assign_results [] (zip kinds outcomes)), last (w # ws))"
    and len: "length outcomes = length kinds" "length ws = length kinds"
    and each: "\<forall>i < length kinds.
           ExportManager_export p m ((w # ws) ! i) (request_for data basePath options (kinds ! i))
             = (Inr (outcomes ! i), ws ! i)"
    by blast
  let ?results = "assign_results [] (zip kinds outcomes)"
  have "set (map fst (zip kinds outcomes)) = set kinds"
    using len(1) by (simp only: map_fst_zip)
  then have keys: "fst ` set ?results = set kinds"
    by (simp add: keys_assign_results)
  have dist: "distinct (map fst ?results)"
    by (rule distinct_assign_results) simp
  have vals: "map_of ?results = map_of (rev (zip kinds outcomes))"
    by (simp add: map_of_assign_results)
  have nth: "\<forall>i < length kinds. map_of ?results (kinds ! i) = Some (outcomes ! i)"
    if d: "distinct kinds"
  proof -
    from d len(1) have "map_of (rev (zip kinds outcomes)) = map_of (zip kinds outcomes)"
      by (subst map_of_inject_set) (simp_all add: rev_map [symmetric])
    with vals d len(1) show ?thesis
      by (simp add: map_of_zip_nth)
  qed
  show ?thesis
  proof (intro exI conjI)
    show "exportMultiple p m w data basePath kinds options = (Inr ?results, last (w # ws))"
      using run by (simp add: exportMultiple_def)
    show "length outcomes = length kinds" "length ws = length kinds"
      by (rule len)+
    show "\<forall>i < length kinds.
           ExportManager_export p m ((w # ws) ! i)
             \<lparr>req_data = data, req_format = kinds ! i,
              req_outputPath = basePath @ ''.'' @ kinds ! i, req_options = options\<rparr>
             = (Inr (outcomes ! i), ws ! i)"
      using each by (simp add: request_for_def)
    show "fst ` set ?results = set kinds"
      by (rule keys)
    show "distinct (map fst ?results)"
      by (rule dist)
    show "map_of ?results = map_of (rev (zip kinds outcomes))"
      by (rule vals)
    show "distinct kinds \<longrightarrow> (\<forall>i < length kinds. map_of ?results (kinds ! i) = Some (outcomes ! i))"
      using nth by blast
  qed
qed

theorem exportMultiple_fans_out_witness:
  "fst (exportMultiple example_platform (new_ExportManager failing_exporter) example_world
          (JArr example_records) ''/tmp/out'' [''csv'', ''xml'', ''pdf'', ''json''] None)
     = Inr [(''csv'', True), (''xml'', False), (''pdf'', False), (''json'', True)]"
proof -
  from exportMultiple_fans_out [of example_platform "new_ExportManager failing_exporter"
      example_world "JArr example_records" "''/tmp/out''" "[''csv'', ''xml'', ''pdf'', ''json'']" None]
  obtain results where
    "fst (exportMultiple example_platform (new_ExportManager failing_exporter) example_world
          (JArr example_records) ''/tmp/out'' [''csv'', ''xml'', ''pdf'', ''json''] None)
       = Inr results"
    and "fst ` set results = set [''csv'', ''xml'', ''pdf'', ''json'']"
    by fastforce
  moreover have
    "fst (exportMultiple example_platform (new_ExportManager failing_exporter) example_world
          (JArr example_records) ''/tmp/out'' [''csv'', ''xml'', ''pdf'', ''json''] None)
     = Inr [(''csv'', True), (''xml'', False), (''pdf'', False), (''json'', True)]"
    by code_simp
  ultimately show ?thesis
    by simp
qed

end

